theory Spec2Isabelle
  imports Main "HOL-Library.Char_ord" "HOL-Library.List_Lexorder" "HOL-Library.Option_ord"
    "HOL-Library.Multiset"
begin

section \<open>The store: tables of init\_database.py\<close>

text \<open>
  The three tables read by dashboard.py, with the columns and nullability that
  \<^verbatim>\<open>scripts/init_database.py\<close> declares. A nullable column is an \<open>option\<close>
  (\<open>None\<close> is SQL NULL); TEXT columns hold byte strings, INTEGER columns integers
  (SQLite stores them in 64 bits). Each table is the list of its rows in the store's scan order.
\<close>

record document =
  d_id :: int
  d_ecli_id :: string
  d_court :: "string option"
  d_year :: "string option"
  d_case_number :: "string option"
  d_file_path :: "string option"
  d_added_date :: "string option"
  d_last_updated :: "string option"

record metrics =
  m_id :: int
  m_document_id :: "int option"
  m_page_count :: "int option"
  m_file_size :: "int option"
  m_document_date :: "string option"
  m_language :: "string option"
  m_judge :: "string option"
  m_pdf_metadata :: "string option"

record snapshot =
  s_id :: int
  s_total_documents :: "int option"
  s_total_pages :: "int option"
  s_total_size_bytes :: "int option"
  s_courts :: "string option"
  s_years :: "string option"
  s_generated_at :: "string option"

record db =
  documents :: "document list"
  document_metrics :: "metrics list"
  corpus_stats :: "snapshot list"

section \<open>Python and SQLite values\<close>

text \<open>
  Values bound to the placeholders of a statement: the storage classes that
  dashboard.py binds (NULL, INTEGER, TEXT).
\<close>

datatype sqlval = Null | Integer int | Text string

text \<open>
  Python values as they occur in the dictionaries the operations return: the values
  \<^verbatim>\<open>json.loads\<close> produces and the column values of a row. A float is kept as its
  \<^verbatim>\<open>repr\<close>; a dictionary is the list of its items in insertion order.
\<close>

datatype pyval =
    PyNone
  | PyBool bool
  | PyInt int
  | PyFloat string
  | PyStr string
  | PyList "pyval list"
  | PyDict "(string \<times> pyval) list"

type_synonym pydict = "string \<rightharpoonup> pyval"

text \<open>The exceptions that leave an operation or that \<^verbatim>\<open>json.loads\<close> raises.\<close>

datatype error =
    ValueError
  | OverflowError
  | ProgrammingError
  | OperationalError
  | JSONDecodeError
  | RecursionError
  | MemoryError

text \<open>The range of SQLite's INTEGER, a signed 64-bit integer.\<close>

definition in_int64 :: "int \<Rightarrow> bool" where
  "in_int64 n = (- (2 ^ 63) \<le> n \<and> n < 2 ^ 63)"

fun py_text :: "string option \<Rightarrow> pyval" where
  "py_text None = PyNone"
| "py_text (Some s) = PyStr s"

fun py_integer :: "int option \<Rightarrow> pyval" where
  "py_integer None = PyNone"
| "py_integer (Some n) = PyInt n"

text \<open>
  \<^verbatim>\<open>'k' in query and query['k']\<close>, and \<^verbatim>\<open>stats.get('k')\<close> used as a condition, on
  a value that is a string or None: the string when the key is present with a non-empty
  string, nothing when the key is absent, None or the empty string.
\<close>

fun field_value :: "string option \<Rightarrow> string option" where
  "field_value None = None"
| "field_value (Some s) = (if s = [] then None else Some s)"

section \<open>Connections\<close>

text \<open>
  A connection records whether \<^verbatim>\<open>conn.close()\<close> has been called on it and the
  statements that were run through its cursor, oldest first.
\<close>

datatype statement =
    LatestSnapshot
  | CountDocuments
  | SumPageCount
  | SumFileSize
  | CountByCourt
  | CountByYear
  | RecentByAddedDate int
  | RecentById int
  | DocumentByEcliId string
  | Search string "sqlval list"

record conn =
  closed :: bool
  executed :: "statement list"

definition get_db_connection :: conn where
  "get_db_connection = \<lparr>closed = False, executed = []\<rparr>"

definition log_stmt :: "statement \<Rightarrow> conn \<Rightarrow> conn" where
  "log_stmt st c = c\<lparr>executed := executed c @ [st]\<rparr>"

definition close :: "conn \<Rightarrow> conn" where
  "close c = c\<lparr>closed := True\<rparr>"

section \<open>The join and the ordering of the store\<close>

text \<open>
  \<^verbatim>\<open>FROM documents d LEFT JOIN document_metrics m ON d.id = m.document_id\<close>: every
  document with each of its metrics rows, or once with no metrics row.
\<close>

definition metrics_of :: "metrics list \<Rightarrow> document \<Rightarrow> metrics list" where
  "metrics_of ms d = filter (\<lambda>m. m_document_id m = Some (d_id d)) ms"

definition joined :: "metrics list \<Rightarrow> document \<Rightarrow> (document \<times> metrics option) list" where
  "joined ms d =
     (case metrics_of ms d of
        [] \<Rightarrow> [(d, None)]
      | m # rest \<Rightarrow> map (\<lambda>x. (d, Some x)) (m # rest))"

definition left_join :: "db \<Rightarrow> (document \<times> metrics option) list" where
  "left_join s = concat (map (joined (document_metrics s)) (documents s))"

text \<open>
  \<^verbatim>\<open>ORDER BY key DESC\<close>: SQLite puts NULL below every value, so NULL keys come last;
  TEXT compares bytewise. Rows with equal keys keep the scan order.
\<close>

definition order_desc :: "('a \<Rightarrow> 'k::linorder) \<Rightarrow> 'a list \<Rightarrow> 'a list" where
  "order_desc key xs = rev (sort_key key (rev xs))"

text \<open>\<^verbatim>\<open>LIMIT ?\<close>: a negative limit is no limit.\<close>

definition limit_rows :: "int \<Rightarrow> 'a list \<Rightarrow> 'a list" where
  "limit_rows n xs = (if n < 0 then xs else take (nat n) xs)"

fun mcol :: "(metrics \<Rightarrow> 'a option) \<Rightarrow> metrics option \<Rightarrow> 'a option" where
  "mcol f None = None"
| "mcol f (Some m) = f m"

section \<open>search\_documents\<close>

text \<open>
  The filter: the four keys that search\_documents reads. The route \<^verbatim>\<open>/api/search\<close>
  fills each with \<^verbatim>\<open>request.args.get\<close>, a string or None; \<open>None\<close> also
  stands for a key that is not in the dictionary (both skip the clause).
\<close>

record query =
  q_court :: "string option"
  q_year :: "string option"
  q_min_pages :: "string option"
  q_max_pages :: "string option"

text \<open>The pieces of SQL text, character for character as in the source.\<close>

definition nl :: string where
  "nl = [CHR 0x0A]"

definition base_sql :: string where
  "base_sql = nl @
     ''    SELECT d.ecli_id, d.court, d.year, d.added_date, m.page_count, m.file_size'' @ nl @
     ''    FROM documents d'' @ nl @
     ''    LEFT JOIN document_metrics m ON d.id = m.document_id'' @ nl @
     ''    WHERE 1=1'' @ nl @
     ''    ''"

definition court_sql :: string where
  "court_sql = '' AND d.court = ?''"

definition year_sql :: string where
  "year_sql = '' AND d.year = ?''"

definition min_pages_sql :: string where
  "min_pages_sql = '' AND m.page_count >= ?''"

definition max_pages_sql :: string where
  "max_pages_sql = '' AND m.page_count <= ?''"

definition order_sql :: string where
  "order_sql = '' ORDER BY d.added_date DESC''"

text \<open>
  Lines 258 to 285: the statement text and its parameters grow together, one clause and
  one parameter for each supplied field. \<open>to_int\<close> is Python's \<^verbatim>\<open>int\<close> on a
  string, \<open>None\<close> where it raises ValueError.
\<close>

definition build_search_query ::
  "(string \<Rightarrow> int option) \<Rightarrow> query \<Rightarrow> error + (string \<times> sqlval list)" where
  "build_search_query to_int q =
     (let st0 = (base_sql, []);
          st1 = (case field_value (q_court q) of
                   Some c \<Rightarrow> (fst st0 @ court_sql, snd st0 @ [Text c])
                 | None \<Rightarrow> st0);
          st2 = (case field_value (q_year q) of
                   Some y \<Rightarrow> (fst st1 @ year_sql, snd st1 @ [Text y])
                 | None \<Rightarrow> st1)
      in case (case field_value (q_min_pages q) of
                 Some lo \<Rightarrow>
                   (case to_int lo of
                      None \<Rightarrow> Inl ValueError
                    | Some n \<Rightarrow> Inr (fst st2 @ min_pages_sql, snd st2 @ [Integer n]))
               | None \<Rightarrow> Inr st2) of
           Inl e \<Rightarrow> Inl e
         | Inr st3 \<Rightarrow>
             (case (case field_value (q_max_pages q) of
                      Some hi \<Rightarrow>
                        (case to_int hi of
                           None \<Rightarrow> Inl ValueError
                         | Some n \<Rightarrow> Inr (fst st3 @ max_pages_sql, snd st3 @ [Integer n]))
                    | None \<Rightarrow> Inr st3) of
                Inl e \<Rightarrow> Inl e
              | Inr st4 \<Rightarrow> Inr (fst st4 @ order_sql, snd st4)))"

text \<open>
  What SQLite does with the statement. The text is recognised clause by clause: the
  fixed head, then any sequence of the four \<^verbatim>\<open>AND\<close> clauses, then the
  \<^verbatim>\<open>ORDER BY\<close>. Any other text is outside the statements this executor knows and
  is refused.
\<close>

datatype clause = CourtEq | YearEq | PagesGe | PagesLe

fun strip_prefix :: "string \<Rightarrow> string \<Rightarrow> string option" where
  "strip_prefix [] s = Some s"
| "strip_prefix (p # ps) [] = None"
| "strip_prefix (p # ps) (c # cs) = (if p = c then strip_prefix ps cs else None)"

lemma strip_prefix_length:
  "strip_prefix p s = Some r \<Longrightarrow> length s = length p + length r"
  by (induction p s rule: strip_prefix.induct) (auto split: if_splits)

function parse_clauses :: "string \<Rightarrow> clause list option" where
  "parse_clauses s =
     (if s = order_sql then Some []
      else case strip_prefix court_sql s of
        Some r \<Rightarrow> map_option ((#) CourtEq) (parse_clauses r)
      | None \<Rightarrow>
     (case strip_prefix year_sql s of
        Some r \<Rightarrow> map_option ((#) YearEq) (parse_clauses r)
      | None \<Rightarrow>
     (case strip_prefix min_pages_sql s of
        Some r \<Rightarrow> map_option ((#) PagesGe) (parse_clauses r)
      | None \<Rightarrow>
     (case strip_prefix max_pages_sql s of
        Some r \<Rightarrow> map_option ((#) PagesLe) (parse_clauses r)
      | None \<Rightarrow> None))))"
  by pat_completeness auto
termination
proof (relation "measure length")
  show "wf (measure length)" by simp
qed (auto dest!: strip_prefix_length
      simp: court_sql_def year_sql_def min_pages_sql_def max_pages_sql_def)

declare parse_clauses.simps [simp del]

text \<open>
  Comparison of two values. A comparison with NULL is unknown (\<open>None\<close>); an INTEGER is
  below every TEXT; TEXT compares bytewise.
\<close>

fun sql_eq :: "sqlval \<Rightarrow> sqlval \<Rightarrow> bool option" where
  "sql_eq Null _ = None"
| "sql_eq _ Null = None"
| "sql_eq (Integer a) (Integer b) = Some (a = b)"
| "sql_eq (Text a) (Text b) = Some (a = b)"
| "sql_eq (Integer a) (Text b) = Some False"
| "sql_eq (Text a) (Integer b) = Some False"

fun sql_le :: "sqlval \<Rightarrow> sqlval \<Rightarrow> bool option" where
  "sql_le Null _ = None"
| "sql_le _ Null = None"
| "sql_le (Integer a) (Integer b) = Some (a \<le> b)"
| "sql_le (Text a) (Text b) = Some (a \<le> b)"
| "sql_le (Integer a) (Text b) = Some True"
| "sql_le (Text a) (Integer b) = Some False"

fun sql_and :: "bool option \<Rightarrow> bool option \<Rightarrow> bool option" where
  "sql_and (Some False) _ = Some False"
| "sql_and _ (Some False) = Some False"
| "sql_and (Some True) (Some True) = Some True"
| "sql_and _ _ = None"

fun col_text :: "string option \<Rightarrow> sqlval" where
  "col_text None = Null"
| "col_text (Some s) = Text s"

fun col_int :: "int option \<Rightarrow> sqlval" where
  "col_int None = Null"
| "col_int (Some n) = Integer n"

fun clause_value :: "clause \<Rightarrow> sqlval \<Rightarrow> document \<times> metrics option \<Rightarrow> bool option" where
  "clause_value CourtEq p (d, m) = sql_eq (col_text (d_court d)) p"
| "clause_value YearEq p (d, m) = sql_eq (col_text (d_year d)) p"
| "clause_value PagesGe p (d, m) = sql_le p (col_int (mcol m_page_count m))"
| "clause_value PagesLe p (d, m) = sql_le (col_int (mcol m_page_count m)) p"

text \<open>\<^verbatim>\<open>WHERE 1=1 AND ...\<close>: the row is kept when the conjunction is true.\<close>

definition where_value ::
  "clause list \<Rightarrow> sqlval list \<Rightarrow> document \<times> metrics option \<Rightarrow> bool option" where
  "where_value cs ps row =
     foldl sql_and (Some True) (map (\<lambda>(c, p). clause_value c p row) (zip cs ps))"

text \<open>
  Binding a Python int that does not fit SQLite's 64-bit INTEGER raises OverflowError.
\<close>

fun bindable :: "sqlval \<Rightarrow> bool" where
  "bindable (Integer n) = in_int64 n"
| "bindable _ = True"

text \<open>A row of the result, \<^verbatim>\<open>dict(row)\<close> over the six selected columns.\<close>

record search_row =
  r_ecli_id :: string
  r_court :: "string option"
  r_year :: "string option"
  r_added_date :: "string option"
  r_page_count :: "int option"
  r_file_size :: "int option"

definition search_columns :: "document \<times> metrics option \<Rightarrow> search_row" where
  "search_columns row =
     \<lparr>r_ecli_id = d_ecli_id (fst row), r_court = d_court (fst row), r_year = d_year (fst row),
      r_added_date = d_added_date (fst row),
      r_page_count = mcol m_page_count (snd row), r_file_size = mcol m_file_size (snd row)\<rparr>"

definition execute_search :: "string \<Rightarrow> sqlval list \<Rightarrow> db \<Rightarrow> error + search_row list" where
  "execute_search sql params s =
     (case strip_prefix base_sql sql of
        None \<Rightarrow> Inl OperationalError
      | Some rest \<Rightarrow>
          (case parse_clauses rest of
             None \<Rightarrow> Inl OperationalError
           | Some cs \<Rightarrow>
               if length cs \<noteq> length params then Inl ProgrammingError
               else if \<not> list_all bindable params then Inl OverflowError
               else Inr (map search_columns
                          (order_desc (\<lambda>row. d_added_date (fst row))
                            (filter (\<lambda>row. where_value cs params row = Some True)
                              (left_join s))))))"

text \<open>
  search\_documents, lines 255 to 297. An exception raised by \<^verbatim>\<open>int\<close> or by
  \<^verbatim>\<open>cursor.execute\<close> leaves the function at once: \<^verbatim>\<open>conn.close()\<close> on line 291
  is reached only after the rows were fetched.
\<close>

definition search_documents ::
  "(string \<Rightarrow> int option) \<Rightarrow> query \<Rightarrow> db \<Rightarrow> (error + search_row list) \<times> conn" where
  "search_documents to_int q s =
     (let c = get_db_connection
      in case build_search_query to_int q of
           Inl e \<Rightarrow> (Inl e, c)
         | Inr (sql, params) \<Rightarrow>
             (case execute_search sql params s of
                Inl e \<Rightarrow> (Inl e, c)
              | Inr rows \<Rightarrow> (Inr rows, close (log_stmt (Search sql params) c))))"

section \<open>get\_recent\_documents\<close>

text \<open>
  A row of the result after the defaults of lines 228 to 235 are filled in. The column
  \<^verbatim>\<open>ecli_id\<close> is declared NOT NULL, so its default is never used.
\<close>

record recent_row =
  rr_id :: int
  rr_ecli_id :: string
  rr_court :: string
  rr_year :: string
  rr_added_date :: string
  rr_page_count :: "int option"
  rr_file_size :: "int option"

fun or_unknown :: "string option \<Rightarrow> string" where
  "or_unknown None = ''Unknown''"
| "or_unknown (Some s) = s"

definition recent_columns :: "document \<times> metrics option \<Rightarrow> recent_row" where
  "recent_columns row =
     \<lparr>rr_id = d_id (fst row), rr_ecli_id = d_ecli_id (fst row),
      rr_court = or_unknown (d_court (fst row)), rr_year = or_unknown (d_year (fst row)),
      rr_added_date = or_unknown (d_added_date (fst row)),
      rr_page_count = mcol m_page_count (snd row), rr_file_size = mcol m_file_size (snd row)\<rparr>"

text \<open>
  Lines 198 to 243. The second statement is run only when the first returned no row.
  A limit that SQLite cannot bind raises inside the \<^verbatim>\<open>try\<close>; the handler closes the
  connection and returns the empty list.
\<close>

definition get_recent_documents :: "int \<Rightarrow> db \<Rightarrow> recent_row list \<times> conn" where
  "get_recent_documents limit s =
     (let c = get_db_connection
      in if \<not> bindable (Integer limit) then ([], close c)
         else
           let rows = limit_rows limit (order_desc (\<lambda>row. d_added_date (fst row)) (left_join s));
               c1 = log_stmt (RecentByAddedDate limit) c
           in if rows = [] then
                let rows2 = limit_rows limit (order_desc (\<lambda>row. d_id (fst row)) (left_join s));
                    c2 = log_stmt (RecentById limit) c1
                in (map recent_columns rows2, close c2)
              else (map recent_columns rows, close c1))"

section \<open>get\_corpus\_stats\<close>

text \<open>\<^verbatim>\<open>SELECT * FROM corpus_stats ORDER BY id DESC LIMIT 1\<close> and \<^verbatim>\<open>fetchone\<close>.\<close>

definition latest_snapshot :: "db \<Rightarrow> snapshot option" where
  "latest_snapshot s =
     (case order_desc s_id (corpus_stats s) of [] \<Rightarrow> None | r # _ \<Rightarrow> Some r)"

definition snapshot_dict :: "snapshot \<Rightarrow> pydict" where
  "snapshot_dict r = map_of
     [(''id'', PyInt (s_id r)),
      (''total_documents'', py_integer (s_total_documents r)),
      (''total_pages'', py_integer (s_total_pages r)),
      (''total_size_bytes'', py_integer (s_total_size_bytes r)),
      (''courts'', py_text (s_courts r)),
      (''years'', py_text (s_years r)),
      (''generated_at'', py_text (s_generated_at r))]"

text \<open>
  Lines 66 to 76, for one of the two keys. \<open>loads\<close> is \<^verbatim>\<open>json.loads\<close> on a string:
  the value, or the exception it raises. Only \<^verbatim>\<open>json.JSONDecodeError\<close>, raised on a
  text that is not JSON, is caught (lines 69 and 75); any other exception (RecursionError
  on a deeply nested text, plain ValueError on an integer of too many digits) leaves
  get\_corpus\_stats.
\<close>

definition parse_json_field ::
  "(string \<Rightarrow> error + pyval) \<Rightarrow> string \<Rightarrow> string option \<Rightarrow> pydict \<Rightarrow> error + pydict" where
  "parse_json_field loads k col stats =
     (case field_value col of
        None \<Rightarrow> Inr stats
      | Some t \<Rightarrow>
          (case loads t of
             Inr v \<Rightarrow> Inr (stats(k \<mapsto> v))
           | Inl e \<Rightarrow> if e = JSONDecodeError then Inr (stats(k \<mapsto> PyDict [])) else Inl e))"

text \<open>
  \<^verbatim>\<open>SUM(col)\<close> skips NULL and is NULL over no value. SQLite adds the values in 64 bits,
  in scan order, and the statement fails with OperationalError (integer overflow) when a
  running sum leaves the 64-bit range. \<^verbatim>\<open>or 0\<close> follows.
\<close>

fun sum_from :: "int \<Rightarrow> int list \<Rightarrow> error + int" where
  "sum_from acc [] = Inr acc"
| "sum_from acc (x # xs) =
     (if in_int64 (acc + x) then sum_from (acc + x) xs else Inl OperationalError)"

definition non_null :: "'a option list \<Rightarrow> 'a list" where
  "non_null xs = concat (map (\<lambda>x. case x of None \<Rightarrow> [] | Some v \<Rightarrow> [v]) xs)"

definition sql_sum :: "int option list \<Rightarrow> error + int option" where
  "sql_sum xs =
     (case non_null xs of
        [] \<Rightarrow> Inr None
      | n # ns \<Rightarrow> (case sum_from 0 (n # ns) of Inl e \<Rightarrow> Inl e | Inr t \<Rightarrow> Inr (Some t)))"

fun or_zero :: "int option \<Rightarrow> int" where
  "or_zero None = 0"
| "or_zero (Some n) = n"

text \<open>
  \<^verbatim>\<open>SELECT k, COUNT(*) FROM documents GROUP BY k\<close>: one row for each distinct key,
  NULL included, in key order; then the comprehension keeps the rows whose key is truthy.
\<close>

definition group_count :: "string option list \<Rightarrow> (string option \<times> nat) list" where
  "group_count ks = map (\<lambda>k. (k, length (filter (\<lambda>x. x = k) ks))) (sort (remdups ks))"

definition truthy_groups :: "(string option \<times> nat) list \<Rightarrow> (string \<times> pyval) list" where
  "truthy_groups gs =
     concat (map (\<lambda>g. case field_value (fst g) of
                         None \<Rightarrow> []
                       | Some k \<Rightarrow> [(k, PyInt (int (snd g)))]) gs)"

text \<open>
  Lines 50 to 107. \<open>now\<close> is \<^verbatim>\<open>datetime.now().isoformat()\<close>. An exception raised by
  \<^verbatim>\<open>json.loads\<close> and not caught, or by a \<^verbatim>\<open>SUM\<close> statement, leaves the function
  before \<^verbatim>\<open>conn.close()\<close> (lines 78 and 106).
\<close>

definition get_corpus_stats ::
  "(string \<Rightarrow> error + pyval) \<Rightarrow> string \<Rightarrow> db \<Rightarrow> (error + pydict) \<times> conn" where
  "get_corpus_stats loads now s =
     (let c = log_stmt LatestSnapshot get_db_connection
      in case latest_snapshot s of
           Some r \<Rightarrow>
             (case parse_json_field loads ''courts'' (s_courts r) (snapshot_dict r) of
                Inl e \<Rightarrow> (Inl e, c)
              | Inr stats1 \<Rightarrow>
                  (case parse_json_field loads ''years'' (s_years r) stats1 of
                     Inl e \<Rightarrow> (Inl e, c)
                   | Inr stats2 \<Rightarrow> (Inr stats2, close c)))
         | None \<Rightarrow>
             (let total_documents = int (length (documents s));
                  c1 = log_stmt CountDocuments c
              in case sql_sum (map m_page_count (document_metrics s)) of
                   Inl e \<Rightarrow> (Inl e, c1)
                 | Inr sum_pages \<Rightarrow>
                     (let total_pages = or_zero sum_pages;
                          c2 = log_stmt SumPageCount c1
                      in case sql_sum (map m_file_size (document_metrics s)) of
                           Inl e \<Rightarrow> (Inl e, c2)
                         | Inr sum_size \<Rightarrow>
                             (let total_size = or_zero sum_size;
                                  courts = truthy_groups (group_count (map d_court (documents s)));
                                  years = truthy_groups (group_count (map d_year (documents s)));
                                  c3 = foldl (\<lambda>k st. log_stmt st k) c2
                                         [SumFileSize, CountByCourt, CountByYear]
                              in (Inr (map_of
                                    [(''total_documents'', PyInt total_documents),
                                     (''total_pages'', PyInt total_pages),
                                     (''total_size_bytes'', PyInt total_size),
                                     (''courts'', PyDict courts),
                                     (''years'', PyDict years),
                                     (''generated_date'', PyStr now)]), close c3)))))"

section \<open>get\_document\<close>

definition detail_dict :: "document \<times> metrics option \<Rightarrow> pydict" where
  "detail_dict row = map_of
     [(''id'', PyInt (d_id (fst row))),
      (''ecli_id'', PyStr (d_ecli_id (fst row))),
      (''court'', py_text (d_court (fst row))),
      (''year'', py_text (d_year (fst row))),
      (''case_number'', py_text (d_case_number (fst row))),
      (''file_path'', py_text (d_file_path (fst row))),
      (''added_date'', py_text (d_added_date (fst row))),
      (''last_updated'', py_text (d_last_updated (fst row))),
      (''page_count'', py_integer (mcol m_page_count (snd row))),
      (''file_size'', py_integer (mcol m_file_size (snd row))),
      (''document_date'', py_text (mcol m_document_date (snd row))),
      (''judge'', py_text (mcol m_judge (snd row))),
      (''pdf_metadata'', py_text (mcol m_pdf_metadata (snd row)))]"

text \<open>
  \<^verbatim>\<open>doc.update(v)\<close> under \<^verbatim>\<open>try: ... except: pass\<close>. A mapping is merged item by
  item, a later item winning. For any other value \<open>upd\<close> gives the dictionary that
  Python's \<^verbatim>\<open>dict.update\<close> leaves behind (unchanged, or with the pairs it consumed
  before it raised).
\<close>

definition dict_update :: "(pydict \<Rightarrow> pyval \<Rightarrow> pydict) \<Rightarrow> pydict \<Rightarrow> pyval \<Rightarrow> pydict" where
  "dict_update upd doc v = (case v of PyDict kvs \<Rightarrow> doc ++ map_of (rev kvs) | _ \<Rightarrow> upd doc v)"

definition not_found :: pydict where
  "not_found = map_of [(''error'', PyStr ''Document not found'')]"

text \<open>
  Lines 364 to 395. The result is the dictionary handed to \<^verbatim>\<open>jsonify\<close> and the
  HTTP status. The bare \<^verbatim>\<open>except\<close> on line 389 catches whatever \<^verbatim>\<open>json.loads\<close>
  raises.
\<close>

definition get_document ::
  "(string \<Rightarrow> error + pyval) \<Rightarrow> (pydict \<Rightarrow> pyval \<Rightarrow> pydict) \<Rightarrow> string \<Rightarrow> db \<Rightarrow>
     (pydict \<times> nat) \<times> conn" where
  "get_document loads upd ecli s =
     (let c = close (log_stmt (DocumentByEcliId ecli) get_db_connection)
      in case filter (\<lambda>row. d_ecli_id (fst row) = ecli) (left_join s) of
           [] \<Rightarrow> ((not_found, 404), c)
         | row # _ \<Rightarrow>
             (let doc = detail_dict row
              in case field_value (mcol m_pdf_metadata (snd row)) of
                   None \<Rightarrow> ((doc, 200), c)
                 | Some t \<Rightarrow>
                     (let doc1 = (case loads t of
                                    Inl e \<Rightarrow> doc
                                  | Inr v \<Rightarrow> dict_update upd doc v)
                      in ((doc1(''pdf_metadata'' := None), 200), c))))"

section \<open>The properties, in the specification's terms\<close>

text \<open>
  Which of the four fields a filter supplies (present and not empty), and what the
  specification says the statement is for them: the text, its clauses and its
  parameters, one for each supplied field in the order court, year, min\_pages,
  max\_pages.
\<close>

definition supplied :: "query \<Rightarrow> bool \<times> bool \<times> bool \<times> bool" where
  "supplied q = (field_value (q_court q) \<noteq> None, field_value (q_year q) \<noteq> None,
                 field_value (q_min_pages q) \<noteq> None, field_value (q_max_pages q) \<noteq> None)"

definition sql_for :: "bool \<times> bool \<times> bool \<times> bool \<Rightarrow> string" where
  "sql_for f = (case f of (c, y, lo, hi) \<Rightarrow>
     base_sql @ (if c then court_sql else []) @ (if y then year_sql else [])
       @ (if lo then min_pages_sql else []) @ (if hi then max_pages_sql else []) @ order_sql)"

definition clauses_for :: "bool \<times> bool \<times> bool \<times> bool \<Rightarrow> clause list" where
  "clauses_for f = (case f of (c, y, lo, hi) \<Rightarrow>
     (if c then [CourtEq] else []) @ (if y then [YearEq] else [])
       @ (if lo then [PagesGe] else []) @ (if hi then [PagesLe] else []))"

definition text_param :: "string option \<Rightarrow> sqlval list" where
  "text_param v = (case field_value v of None \<Rightarrow> [] | Some s \<Rightarrow> [Text s])"

definition int_param :: "(string \<Rightarrow> int option) \<Rightarrow> string option \<Rightarrow> sqlval list" where
  "int_param to_int v =
     (case field_value v of
        None \<Rightarrow> []
      | Some s \<Rightarrow> (case to_int s of None \<Rightarrow> [] | Some n \<Rightarrow> [Integer n]))"

definition params_for :: "(string \<Rightarrow> int option) \<Rightarrow> query \<Rightarrow> sqlval list" where
  "params_for to_int q = text_param (q_court q) @ text_param (q_year q)
      @ int_param to_int (q_min_pages q) @ int_param to_int (q_max_pages q)"

text \<open>
  A well-formed filter: each supplied page bound is a number, that is, \<open>to_int\<close> accepts
  it. Any string is a valid court or year. The bounds fit when each of these numbers is
  one that SQLite can hold.
\<close>

definition numeric_bound :: "(string \<Rightarrow> int option) \<Rightarrow> string option \<Rightarrow> bool" where
  "numeric_bound to_int v =
     (case field_value v of None \<Rightarrow> True | Some t \<Rightarrow> to_int t \<noteq> None)"

definition well_formed :: "(string \<Rightarrow> int option) \<Rightarrow> query \<Rightarrow> bool" where
  "well_formed to_int q =
     (numeric_bound to_int (q_min_pages q) \<and> numeric_bound to_int (q_max_pages q))"

definition bound_fits :: "(string \<Rightarrow> int option) \<Rightarrow> string option \<Rightarrow> bool" where
  "bound_fits to_int v =
     (case field_value v of
        None \<Rightarrow> True
      | Some t \<Rightarrow> (case to_int t of None \<Rightarrow> True | Some n \<Rightarrow> in_int64 n))"

definition bounds_fit :: "(string \<Rightarrow> int option) \<Rightarrow> query \<Rightarrow> bool" where
  "bounds_fit to_int q = (bound_fits to_int (q_min_pages q) \<and> bound_fits to_int (q_max_pages q))"

text \<open>
  A result row satisfies the supplied predicates: court and year equal to the supplied
  values, the page count known and within the supplied inclusive bounds.
\<close>

definition satisfies :: "(string \<Rightarrow> int option) \<Rightarrow> query \<Rightarrow> search_row \<Rightarrow> bool" where
  "satisfies to_int q r =
     ((case field_value (q_court q) of None \<Rightarrow> True | Some c \<Rightarrow> r_court r = Some c) \<and>
      (case field_value (q_year q) of None \<Rightarrow> True | Some y \<Rightarrow> r_year r = Some y) \<and>
      (case field_value (q_min_pages q) of
         None \<Rightarrow> True
       | Some lo \<Rightarrow> (case (to_int lo, r_page_count r) of
                      (Some n, Some p) \<Rightarrow> n \<le> p
                    | _ \<Rightarrow> False)) \<and>
      (case field_value (q_max_pages q) of
         None \<Rightarrow> True
       | Some hi \<Rightarrow> (case (to_int hi, r_page_count r) of
                      (Some n, Some p) \<Rightarrow> p \<le> n
                    | _ \<Rightarrow> False)))"

text \<open>
  The values of a column add up within 64 bits: every running sum of its non-NULL
  values, in scan order, is in range.
\<close>

definition sum_fits :: "int option list \<Rightarrow> bool" where
  "sum_fits xs =
     list_all (\<lambda>n. in_int64 (sum_list (take n (non_null xs)))) [1..<Suc (length (non_null xs))]"

text \<open>
  \<^verbatim>\<open>json.loads\<close> is not called on the column (it is NULL or empty), or it returns a
  value, or it raises the one exception that get\_corpus\_stats catches.
\<close>

definition decodes_or_caught :: "(string \<Rightarrow> error + pyval) \<Rightarrow> string option \<Rightarrow> bool" where
  "decodes_or_caught loads col =
     (case field_value col of
        None \<Rightarrow> True
      | Some t \<Rightarrow> (case loads t of Inr v \<Rightarrow> True | Inl e \<Rightarrow> e = JSONDecodeError))"

section \<open>Sample inputs\<close>

text \<open>
  A decoder of plain decimal numerals (an optional minus sign, then ASCII digits), which
  agrees with Python's \<^verbatim>\<open>int\<close> on the strings used in the examples.
\<close>

definition digit_of :: "char \<Rightarrow> int option" where
  "digit_of c =
     (let n = (of_char c :: nat) in if 48 \<le> n \<and> n \<le> 57 then Some (int n - 48) else None)"

fun digits_int :: "int \<Rightarrow> string \<Rightarrow> int option" where
  "digits_int acc [] = Some acc"
| "digits_int acc (c # cs) =
     (case digit_of c of None \<Rightarrow> None | Some d \<Rightarrow> digits_int (10 * acc + d) cs)"

definition decimal_int :: "string \<Rightarrow> int option" where
  "decimal_int t =
     (case t of
        [] \<Rightarrow> None
      | c # cs \<Rightarrow> if c = CHR ''-'' \<and> cs \<noteq> [] then map_option uminus (digits_int 0 cs)
                  else digits_int 0 t)"

text \<open>
  A decoder that agrees with \<^verbatim>\<open>json.loads\<close> on the texts stored in the sample
  tables: four objects, texts that are not JSON (JSONDecodeError), and a text of 100000
  opening brackets, on which the decoder's recursion fails (RecursionError).
\<close>

definition deep_brackets :: string where
  "deep_brackets = replicate 100000 (CHR ''['')"

definition sample_loads :: "string \<Rightarrow> error + pyval" where
  \<open>sample_loads t =
     (if t = deep_brackets then Inl RecursionError
      else if t = ''{}'' then Inr (PyDict [])
      else if t = ''{"judge": "X"}'' then Inr (PyDict [(''judge'', PyStr ''X'')])
      else if t = ''{"pdf_metadata": "x"}'' then Inr (PyDict [(''pdf_metadata'', PyStr ''x'')])
      else if t = ''{"1991": 1}'' then Inr (PyDict [(''1991'', PyInt 1)])
      else Inl JSONDecodeError)\<close>

definition doc1 :: document where
  "doc1 = \<lparr>d_id = 1, d_ecli_id = ''ECLI_PT_STJ_1991_000001'', d_court = Some ''STJ'',
     d_year = Some ''1991'', d_case_number = Some ''000001'', d_file_path = None,
     d_added_date = None, d_last_updated = None\<rparr>"

definition doc2 :: document where
  "doc2 = \<lparr>d_id = 2, d_ecli_id = ''ECLI_PT_TRL_1998_000002'', d_court = Some ''TRL'',
     d_year = Some ''1998'', d_case_number = Some ''000002'', d_file_path = None,
     d_added_date = Some ''2024-05-01T10:00:00'', d_last_updated = None\<rparr>"

definition doc3 :: document where
  "doc3 = \<lparr>d_id = 3, d_ecli_id = ''ECLI_PT_STJ_2000_000003'', d_court = Some ''STJ'',
     d_year = Some ''2000'', d_case_number = Some ''000003'', d_file_path = None,
     d_added_date = Some ''2024-06-01T10:00:00'', d_last_updated = None\<rparr>"

definition met1 :: metrics where
  \<open>met1 = \<lparr>m_id = 1, m_document_id = Some 1, m_page_count = Some 2, m_file_size = Some 102400,
     m_document_date = None, m_language = Some ''Portuguese'', m_judge = None,
     m_pdf_metadata = Some ''{"judge": "X"}''\<rparr>\<close>

definition met2 :: metrics where
  \<open>met2 = \<lparr>m_id = 2, m_document_id = Some 2, m_page_count = Some 30, m_file_size = Some 1536000,
     m_document_date = None, m_language = Some ''Portuguese'', m_judge = None,
     m_pdf_metadata = Some ''{"pdf_metadata": "x"}''\<rparr>\<close>

text \<open>Three documents, the third without a metrics row, and no snapshot.\<close>

definition sample_db :: db where
  "sample_db =
     \<lparr>documents = [doc1, doc2, doc3], document_metrics = [met1, met2], corpus_stats = []\<rparr>"

definition q_stj :: query where
  "q_stj = \<lparr>q_court = Some ''STJ'', q_year = Some '''', q_min_pages = Some ''2'',
     q_max_pages = None\<rparr>"

definition q_trl :: query where
  "q_trl = \<lparr>q_court = Some ''TRL'', q_year = Some '''', q_min_pages = Some ''30'',
     q_max_pages = None\<rparr>"

definition q_none :: query where
  "q_none = \<lparr>q_court = None, q_year = Some '''', q_min_pages = None, q_max_pages = Some ''''\<rparr>"

definition q_bad :: query where
  "q_bad = \<lparr>q_court = None, q_year = None, q_min_pages = Some ''abc'', q_max_pages = None\<rparr>"

text \<open>\<^verbatim>\<open>dict.update\<close> that raises before it stores anything.\<close>

definition keep_dict :: "pydict \<Rightarrow> pyval \<Rightarrow> pydict" where
  "keep_dict doc v = doc"

definition empty_db :: db where
  "empty_db = \<lparr>documents = [], document_metrics = [], corpus_stats = []\<rparr>"

text \<open>Two documents whose \<open>added_date\<close> is NULL.\<close>

definition null_dates_db :: db where
  "null_dates_db =
     \<lparr>documents = [doc1, doc2\<lparr>d_added_date := None\<rparr>], document_metrics = [met1, met2],
      corpus_stats = []\<rparr>"

definition snap_old :: snapshot where
  \<open>snap_old = \<lparr>s_id = 1, s_total_documents = Some 0, s_total_pages = Some 0,
     s_total_size_bytes = Some 0, s_courts = Some ''{}'', s_years = Some ''{}'',
     s_generated_at = Some ''2024-05-01T09:00:00''\<rparr>\<close>

definition snap_bad :: snapshot where
  \<open>snap_bad = \<lparr>s_id = 2, s_total_documents = Some 3, s_total_pages = Some 32,
     s_total_size_bytes = Some 1638400, s_courts = Some ''{"STJ": 2,'',
     s_years = Some ''{"1991": 1}'', s_generated_at = Some ''2024-06-01T09:00:00''\<rparr>\<close>

definition snap_blank :: snapshot where
  "snap_blank = \<lparr>s_id = 3, s_total_documents = Some 3, s_total_pages = Some 32,
     s_total_size_bytes = Some 1638400, s_courts = Some '''', s_years = None,
     s_generated_at = Some ''2024-07-01T09:00:00''\<rparr>"

definition malformed_db :: db where
  "malformed_db = sample_db\<lparr>corpus_stats := [snap_old, snap_bad]\<rparr>"

definition blank_db :: db where
  "blank_db = sample_db\<lparr>corpus_stats := [snap_old, snap_bad, snap_blank]\<rparr>"

definition snap_empty_courts :: snapshot where
  \<open>snap_empty_courts = \<lparr>s_id = 3, s_total_documents = Some 3, s_total_pages = Some 32,
     s_total_size_bytes = Some 1638400, s_courts = Some '''', s_years = Some ''{"1991": 1}'',
     s_generated_at = Some ''2024-07-01T09:00:00''\<rparr>\<close>

definition empty_courts_db :: db where
  "empty_courts_db = sample_db\<lparr>corpus_stats := [snap_old, snap_bad, snap_empty_courts]\<rparr>"

definition snap_deep :: snapshot where
  \<open>snap_deep = \<lparr>s_id = 3, s_total_documents = Some 3, s_total_pages = Some 32,
     s_total_size_bytes = Some 1638400, s_courts = Some deep_brackets,
     s_years = Some ''{"1991": 1}'', s_generated_at = Some ''2024-07-01T09:00:00''\<rparr>\<close>

definition deep_db :: db where
  "deep_db = sample_db\<lparr>corpus_stats := [snap_old, snap_bad, snap_deep]\<rparr>"



text \<open>
  A store with no document and one metrics row, and a store with two metrics rows whose
  file sizes add up to \<open>2 ^ 63\<close>.
\<close>

definition orphan_db :: db where
  "orphan_db = \<lparr>documents = [], document_metrics = [met1], corpus_stats = []\<rparr>"

definition overflow_db :: db where
  "overflow_db = \<lparr>documents = [doc1, doc2],
     document_metrics = [met1\<lparr>m_file_size := Some (2 ^ 62)\<rparr>, met2\<lparr>m_file_size := Some (2 ^ 62)\<rparr>],
     corpus_stats = []\<rparr>"

text \<open>A snapshot whose courts text is empty and whose years text is the deep one.\<close>

definition snap_deep_years :: snapshot where
  "snap_deep_years = \<lparr>s_id = 3, s_total_documents = Some 3, s_total_pages = Some 32,
     s_total_size_bytes = Some 1638400, s_courts = Some '''', s_years = Some deep_brackets,
     s_generated_at = Some ''2024-07-01T09:00:00''\<rparr>"

definition deep_years_db :: db where
  "deep_years_db = sample_db\<lparr>corpus_stats := [snap_old, snap_bad, snap_deep_years]\<rparr>"

section \<open>Lemmas\<close>



lemma strip_prefix_append: "strip_prefix p (p @ r) = Some r"
  by (induction p) auto

lemma parse_court: "parse_clauses (court_sql @ r) = map_option ((#) CourtEq) (parse_clauses r)"
  by (subst parse_clauses.simps) (simp add: strip_prefix_append, simp add: court_sql_def order_sql_def)

lemma parse_year: "parse_clauses (year_sql @ r) = map_option ((#) YearEq) (parse_clauses r)"
  by (subst parse_clauses.simps)
     (simp add: strip_prefix_append, simp add: court_sql_def order_sql_def year_sql_def)

lemma parse_min: "parse_clauses (min_pages_sql @ r) = map_option ((#) PagesGe) (parse_clauses r)"
  by (subst parse_clauses.simps)
     (simp add: strip_prefix_append,
      simp add: court_sql_def order_sql_def year_sql_def min_pages_sql_def)

lemma parse_max: "parse_clauses (max_pages_sql @ r) = map_option ((#) PagesLe) (parse_clauses r)"
  by (subst parse_clauses.simps)
     (simp add: strip_prefix_append,
      simp add: court_sql_def order_sql_def year_sql_def min_pages_sql_def max_pages_sql_def)

lemma parse_order: "parse_clauses order_sql = Some []"
  by (subst parse_clauses.simps) simp

lemma build_Inr:
  "build_search_query to_int q = Inr (sql, ps) \<Longrightarrow>
     sql = sql_for (supplied q) \<and> ps = params_for to_int q"
  by (auto simp: build_search_query_def Let_def sql_for_def supplied_def params_for_def
        text_param_def int_param_def split: option.splits sum.splits)

lemma build_well_formed:
  "well_formed to_int q \<Longrightarrow>
     build_search_query to_int q = Inr (sql_for (supplied q), params_for to_int q)"
  by (auto simp: build_search_query_def Let_def sql_for_def supplied_def params_for_def
        text_param_def int_param_def well_formed_def numeric_bound_def
        split: option.splits sum.splits)


lemma parse_sql_for: "strip_prefix base_sql (sql_for f) = Some r \<Longrightarrow> parse_clauses r = Some (clauses_for f)"
  by (cases f)
     (auto simp add: sql_for_def clauses_for_def strip_prefix_append parse_court parse_year parse_min
      parse_max parse_order)

lemma strip_sql_for: "\<exists>r. strip_prefix base_sql (sql_for f) = Some r"
  by (cases f) (simp add: sql_for_def strip_prefix_append)

lemma length_params_for:
  "well_formed to_int q \<Longrightarrow> length (clauses_for (supplied q)) = length (params_for to_int q)"
  by (auto simp: clauses_for_def supplied_def params_for_def text_param_def int_param_def
        well_formed_def numeric_bound_def split: option.splits)

lemma bindable_params_for:
  "well_formed to_int q \<Longrightarrow> list_all bindable (params_for to_int q) \<longleftrightarrow> bounds_fit to_int q"
  by (auto simp: params_for_def text_param_def int_param_def bounds_fit_def bound_fits_def
        well_formed_def numeric_bound_def split: option.splits)

lemma execute_search_well_formed:
  assumes "well_formed to_int q" and "bounds_fit to_int q"
  shows "execute_search (sql_for (supplied q)) (params_for to_int q) s =
     Inr (map search_columns
            (order_desc (\<lambda>row. d_added_date (fst row))
               (filter (\<lambda>row. where_value (clauses_for (supplied q)) (params_for to_int q) row = Some True)
                  (left_join s))))"
proof -
  obtain r where r: "strip_prefix base_sql (sql_for (supplied q)) = Some r"
    using strip_sql_for by blast
  have p: "parse_clauses r = Some (clauses_for (supplied q))"
    using r by (rule parse_sql_for)
  show ?thesis
    using length_params_for [OF assms(1)] bindable_params_for [OF assms(1)] assms(2)
    by (simp add: execute_search_def r p)
qed


lemma foldl_sql_and_False: "foldl sql_and (Some False) vs = Some False"
  by (induction vs) auto

lemma foldl_sql_and_None: "foldl sql_and None vs \<noteq> Some True"
proof (induction vs)
  case Nil
  then show ?case by simp
next
  case (Cons v vs)
  show ?case
  proof (cases v)
    case None
    then show ?thesis using Cons by simp
  next
    case (Some b)
    then show ?thesis using Cons by (cases b) (simp_all add: foldl_sql_and_False)
  qed
qed

lemma foldl_sql_and_True:
  "foldl sql_and (Some True) vs = Some True \<longleftrightarrow> (\<forall>v\<in>set vs. v = Some True)"
proof (induction vs)
  case Nil
  then show ?case by simp
next
  case (Cons v vs)
  show ?case
  proof (cases v)
    case None
    then show ?thesis by (simp add: foldl_sql_and_None)
  next
    case (Some b)
    then show ?thesis using Cons by (cases b) (auto simp: foldl_sql_and_False)
  qed
qed

lemma where_value_satisfies:
  assumes "well_formed to_int q"
  shows "where_value (clauses_for (supplied q)) (params_for to_int q) row = Some True
           \<longleftrightarrow> satisfies to_int q (search_columns row)"
proof -
  obtain d m where row: "row = (d, m)" by (cases row)
  show ?thesis
    using assms unfolding where_value_def foldl_sql_and_True row
    apply (cases "d_court d"; cases "d_year d"; cases "mcol m_page_count m")
    by (auto simp: clauses_for_def supplied_def params_for_def text_param_def int_param_def
        well_formed_def numeric_bound_def satisfies_def search_columns_def
        split: option.splits)
qed


lemma mset_order_desc: "mset (order_desc k xs) = mset xs"
  by (simp add: order_desc_def)

lemma set_order_desc: "set (order_desc k xs) = set xs"
  by (simp add: order_desc_def)

lemma order_desc_Nil: "order_desc k xs = [] \<longleftrightarrow> xs = []"
  by (metis mset_order_desc mset_zero_iff)

lemma sorted_order_desc: "sorted_wrt (\<lambda>a b. k b \<le> k a) (order_desc k xs)"
proof -
  have "sorted (map k (sort_key k (rev xs)))" by simp
  then have "sorted_wrt (\<lambda>a b. k a \<le> k b) (sort_key k (rev xs))"
    by (simp add: sorted_wrt_map)
  then show ?thesis
    by (simp add: order_desc_def sorted_wrt_rev)
qed


lemma fst_set_left_join: "fst ` set (left_join s) = set (documents s)"
proof -
  have "fst ` set (joined ms d) = {d}" for ms d
    by (auto simp: joined_def image_iff split: list.splits)
  then show ?thesis
    by (simp add: left_join_def image_UN)
qed

text \<open>The left join, row by row, in terms of the two tables.\<close>

lemma in_joined:
  "(d', mo) \<in> set (joined ms d) \<longleftrightarrow>
     d' = d \<and> (case mo of
                 None \<Rightarrow> (\<forall>m\<in>set ms. m_document_id m \<noteq> Some (d_id d))
               | Some m \<Rightarrow> m \<in> set ms \<and> m_document_id m = Some (d_id d))"
proof (cases "metrics_of ms d")
  case Nil
  then have "\<forall>m\<in>set ms. m_document_id m \<noteq> Some (d_id d)"
    by (simp add: metrics_of_def filter_empty_conv)
  then show ?thesis
    using Nil by (auto simp: joined_def split: option.splits)
next
  case (Cons m rest)
  then have "set (metrics_of ms d) = insert m (set rest)"
    by simp
  moreover have "set (metrics_of ms d) = {x \<in> set ms. m_document_id x = Some (d_id d)}"
    by (simp add: metrics_of_def)
  ultimately show ?thesis
    using Cons by (auto simp: joined_def split: option.splits)
qed

lemma in_left_join:
  "(d, mo) \<in> set (left_join s) \<longleftrightarrow>
     d \<in> set (documents s) \<and>
     (case mo of
        None \<Rightarrow> (\<forall>m\<in>set (document_metrics s). m_document_id m \<noteq> Some (d_id d))
      | Some m \<Rightarrow> m \<in> set (document_metrics s) \<and> m_document_id m = Some (d_id d))"
  by (auto simp: left_join_def in_joined)

lemma length_joined:
  "length (joined ms d) = max 1 (length (filter (\<lambda>m. m_document_id m = Some (d_id d)) ms))"
  by (simp add: joined_def metrics_of_def split: list.splits)

lemma length_left_join:
  "length (left_join s) =
     sum_list (map (\<lambda>d. max 1 (length (filter (\<lambda>m. m_document_id m = Some (d_id d))
                                          (document_metrics s)))) (documents s))"
  by (simp add: left_join_def length_concat comp_def length_joined)

lemma search_documents_well_formed:
  assumes "well_formed to_int q" and "bounds_fit to_int q"
  shows "search_documents to_int q s =
     (Inr (map search_columns
            (order_desc (\<lambda>row. d_added_date (fst row))
               (filter (\<lambda>row. satisfies to_int q (search_columns row)) (left_join s)))),
      \<lparr>closed = True, executed = [Search (sql_for (supplied q)) (params_for to_int q)]\<rparr>)"
  by (simp add: search_documents_def build_well_formed [OF assms(1)]
      execute_search_well_formed [OF assms] where_value_satisfies [OF assms(1)]
      get_db_connection_def log_stmt_def close_def)


lemmas sample_simps = sample_db_def doc1_def doc2_def doc3_def met1_def met2_def
  left_join_def joined_def metrics_of_def order_desc_def limit_rows_def
  decimal_int_def digit_of_def in_int64_def

lemma field_value_Some: "field_value v = Some t \<longleftrightarrow> v = Some t \<and> t \<noteq> []"
  by (cases v) auto


lemma deep_brackets_neq: "length t < 100000 \<Longrightarrow> (t = deep_brackets) = False"
  by (auto simp: deep_brackets_def)

lemma deep_brackets_not_Nil: "deep_brackets \<noteq> []"
  by (simp add: deep_brackets_def)

lemma latest_snapshot_None: "corpus_stats s = [] \<Longrightarrow> latest_snapshot s = None"
  by (simp add: latest_snapshot_def order_desc_def)

text \<open>When \<^verbatim>\<open>SUM\<close> returns and when it fails.\<close>

lemma prefix_sums_Cons:
  "(\<forall>n\<in>{1..Suc (length ys)}. in_int64 (acc + sum_list (take n (y # ys)))) \<longleftrightarrow>
     in_int64 (acc + y) \<and> (\<forall>n\<in>{1..length ys}. in_int64 (acc + y + sum_list (take n ys)))"
proof
  assume a: "\<forall>n\<in>{1..Suc (length ys)}. in_int64 (acc + sum_list (take n (y # ys)))"
  have "in_int64 (acc + sum_list (take 1 (y # ys)))"
    using a by (metis One_nat_def Suc_le_mono atLeastAtMost_iff le0 le_refl)
  moreover have "in_int64 (acc + y + sum_list (take n ys))" if "n \<in> {1..length ys}" for n
  proof -
    have "Suc n \<in> {1..Suc (length ys)}" using that by simp
    then have "in_int64 (acc + sum_list (take (Suc n) (y # ys)))" using a by blast
    then show ?thesis by (simp add: add.assoc)
  qed
  ultimately show "in_int64 (acc + y) \<and> (\<forall>n\<in>{1..length ys}. in_int64 (acc + y + sum_list (take n ys)))"
    by simp
next
  assume b: "in_int64 (acc + y) \<and> (\<forall>n\<in>{1..length ys}. in_int64 (acc + y + sum_list (take n ys)))"
  show "\<forall>n\<in>{1..Suc (length ys)}. in_int64 (acc + sum_list (take n (y # ys)))"
  proof
    fix n assume n: "n \<in> {1..Suc (length ys)}"
    then obtain k where k: "n = Suc k" by (cases n) auto
    show "in_int64 (acc + sum_list (take n (y # ys)))"
    proof (cases k)
      case 0
      then show ?thesis using b k by simp
    next
      case (Suc j)
      then have "k \<in> {1..length ys}" using n k by simp
      then show ?thesis using b k by (simp add: add.assoc)
    qed
  qed
qed

lemma sum_from_eq:
  "sum_from acc ys =
     (if \<forall>n\<in>{1..length ys}. in_int64 (acc + sum_list (take n ys))
      then Inr (acc + sum_list ys) else Inl OperationalError)"
proof (induction ys arbitrary: acc)
  case Nil
  then show ?case by simp
next
  case (Cons y ys)
  show ?case
    unfolding sum_from.simps Cons.IH length_Cons prefix_sums_Cons
    by (simp add: add.assoc)
qed

lemma sum_fits_iff:
  "sum_fits xs \<longleftrightarrow> (\<forall>n\<in>{1..length (non_null xs)}. in_int64 (sum_list (take n (non_null xs))))"
  by (auto simp: sum_fits_def list_all_iff)

lemma sql_sum_fits:
  "sum_fits xs \<Longrightarrow>
     sql_sum xs = Inr (if non_null xs = [] then None else Some (sum_list (non_null xs)))"
  by (cases "non_null xs") (simp_all add: sql_sum_def sum_from_eq sum_fits_iff del: sum_from.simps)

lemma sql_sum_overflow: "\<not> sum_fits xs \<Longrightarrow> sql_sum xs = Inl OperationalError"
  by (cases "non_null xs") (simp_all add: sql_sum_def sum_from_eq sum_fits_iff del: sum_from.simps)

text \<open>The snapshot branch of get\_corpus\_stats.\<close>

lemma get_corpus_stats_snapshot:
  "latest_snapshot s = Some r \<Longrightarrow>
     get_corpus_stats loads now s =
       (case parse_json_field loads ''courts'' (s_courts r) (snapshot_dict r) of
          Inl e \<Rightarrow> (Inl e, \<lparr>closed = False, executed = [LatestSnapshot]\<rparr>)
        | Inr stats1 \<Rightarrow>
            (case parse_json_field loads ''years'' (s_years r) stats1 of
               Inl e \<Rightarrow> (Inl e, \<lparr>closed = False, executed = [LatestSnapshot]\<rparr>)
             | Inr stats2 \<Rightarrow> (Inr stats2, \<lparr>closed = True, executed = [LatestSnapshot]\<rparr>)))"
  by (simp add: get_corpus_stats_def Let_def get_db_connection_def log_stmt_def close_def
      split: sum.splits)

lemma parse_json_field_caught:
  "decodes_or_caught loads col \<Longrightarrow>
     parse_json_field loads k col stats =
       Inr (case field_value col of
              None \<Rightarrow> stats
            | Some t \<Rightarrow> (case loads t of Inr v \<Rightarrow> stats(k \<mapsto> v) | Inl e \<Rightarrow> stats(k \<mapsto> PyDict [])))"
  by (auto simp: decodes_or_caught_def parse_json_field_def split: option.splits sum.splits)

text \<open>
  An exception of \<^verbatim>\<open>json.loads\<close> other than JSONDecodeError leaves get\_corpus\_stats,
  with the connection open.
\<close>

lemma get_corpus_stats_uncaught:
  assumes "latest_snapshot s = Some r" and "field_value (s_courts r) = Some t"
    and "loads t = Inl e" and "e \<noteq> JSONDecodeError"
  shows "get_corpus_stats loads now s = (Inl e, \<lparr>closed = False, executed = [LatestSnapshot]\<rparr>)"
  using assms(2-4)
  by (simp add: get_corpus_stats_snapshot [OF assms(1)] parse_json_field_def)

lemma filter_joined_other:
  "d_ecli_id a \<noteq> ecli \<Longrightarrow> filter (\<lambda>row. d_ecli_id (fst row) = ecli) (joined ms a) = []"
  by (auto simp: joined_def filter_empty_conv split: list.splits)

lemma filter_joined_same:
  "metrics_of ms d = m # rest \<Longrightarrow>
     filter (\<lambda>row. d_ecli_id (fst row) = d_ecli_id d) (joined ms d)
       = (d, Some m) # map (\<lambda>x. (d, Some x)) rest"
  by (simp add: joined_def filter_map comp_def)

lemma first_match_concat:
  assumes "d \<in> set ds" and "\<forall>d'\<in>set ds. d_ecli_id d' = d_ecli_id d \<longrightarrow> d' = d"
    and "metrics_of ms d = m # rest"
  shows "\<exists>more. filter (\<lambda>row. d_ecli_id (fst row) = d_ecli_id d) (concat (map (joined ms) ds))
           = (d, Some m) # more"
  using assms(1,2)
proof (induction ds)
  case Nil
  then show ?case by simp
next
  case (Cons a ds)
  show ?case
  proof (cases "a = d")
    case True
    then show ?thesis by (simp add: filter_joined_same [OF assms(3)])
  next
    case False
    then have "d_ecli_id a \<noteq> d_ecli_id d" using Cons.prems(2) by auto
    moreover have "d \<in> set ds" using Cons.prems(1) False by simp
    ultimately show ?thesis using Cons.IH Cons.prems(2) by (simp add: filter_joined_other)
  qed
qed

lemma no_match_left_join:
  assumes "\<forall>d\<in>set (documents s). d_ecli_id d \<noteq> ecli"
  shows "filter (\<lambda>row. d_ecli_id (fst row) = ecli) (left_join s) = []"
proof -
  have "fst row \<in> set (documents s)" if "row \<in> set (left_join s)" for row
    using that fst_set_left_join [of s] by (metis imageI)
  then show ?thesis using assms by (auto simp: filter_empty_conv)
qed

lemma get_document_not_found:
  assumes "\<forall>d\<in>set (documents s). d_ecli_id d \<noteq> ecli"
  shows "get_document loads upd ecli s =
           ((not_found, 404), \<lparr>closed = True, executed = [DocumentByEcliId ecli]\<rparr>)"
  by (simp add: get_document_def no_match_left_join [OF assms] get_db_connection_def
      log_stmt_def close_def)

lemma get_document_mapping:
  assumes "d \<in> set (documents s)"
    and "\<forall>d'\<in>set (documents s). d_ecli_id d' = d_ecli_id d \<longrightarrow> d' = d"
    and "metrics_of (document_metrics s) d = m # rest"
    and "field_value (m_pdf_metadata m) = Some t"
    and "loads t = Inr (PyDict kvs)"
  shows "fst (get_document loads upd (d_ecli_id d) s) =
           ((detail_dict (d, Some m) ++ map_of (rev kvs))(''pdf_metadata'' := None), 200)"
proof -
  obtain more where
    "filter (\<lambda>row. d_ecli_id (fst row) = d_ecli_id d) (left_join s) = (d, Some m) # more"
    using first_match_concat [OF assms(1-3)] unfolding left_join_def by blast
  then show ?thesis
    using assms(4,5) by (simp add: get_document_def Let_def dict_update_def)
qed

text \<open>Where the connection is closed, and where it is not.\<close>

lemma get_recent_documents_closes: "closed (snd (get_recent_documents limit s))"
  by (simp add: get_recent_documents_def Let_def close_def)

lemma get_corpus_stats_closed_iff_returned:
  "closed (snd (get_corpus_stats loads now s))
     \<longleftrightarrow> (\<exists>stats. fst (get_corpus_stats loads now s) = Inr stats)"
  by (auto simp: get_corpus_stats_def Let_def close_def get_db_connection_def log_stmt_def
      split: option.splits sum.splits)

lemma get_document_closes: "closed (snd (get_document loads upd ecli s))"
  by (simp add: get_document_def Let_def close_def split: list.splits option.splits sum.splits)

lemma search_documents_closed_iff_returned:
  "closed (snd (search_documents to_int q s)) \<longleftrightarrow> (\<exists>rows. fst (search_documents to_int q s) = Inr rows)"
  by (auto simp: search_documents_def Let_def close_def get_db_connection_def log_stmt_def
      split: sum.splits prod.splits)

text \<open>
  The statement ordered by id is run only on a store whose join is empty, where it
  returns nothing either.
\<close>

lemma left_join_Nil: "left_join s = [] \<longleftrightarrow> documents s = []"
  using fst_set_left_join [of s] by (metis image_is_empty set_empty)

lemma get_recent_documents_primary_only:
  assumes "documents s \<noteq> []" and "0 < limit" and "limit < 2 ^ 63"
  shows "get_recent_documents limit s =
           (map recent_columns
              (take (nat limit) (order_desc (\<lambda>row. d_added_date (fst row)) (left_join s))),
            \<lparr>closed = True, executed = [RecentByAddedDate limit]\<rparr>)"
proof -
  have "order_desc (\<lambda>row. d_added_date (fst row)) (left_join s) \<noteq> []"
    using assms(1) by (simp add: order_desc_Nil left_join_Nil)
  then have "take (nat limit) (order_desc (\<lambda>row. d_added_date (fst row)) (left_join s)) \<noteq> []"
    using assms(2) by (simp add: take_eq_Nil)
  then show ?thesis
    using assms(2,3)
    by (simp add: get_recent_documents_def Let_def limit_rows_def get_db_connection_def
        log_stmt_def close_def in_int64_def)
qed

section \<open>Properties of the operations\<close>




text \<open>
  C2. When a supplied \<open>min_pages\<close> or \<open>max_pages\<close> (present and not empty; an empty
  field is an absent one) is a string that \<open>to_int\<close> rejects, search\_documents reports
  the invalid value to its caller, as the ValueError that \<^verbatim>\<open>int\<close> raises on lines
  278 and 282, and no statement has been run against the store.
\<close>

theorem search_documents_non_numeric:
  assumes "(\<exists>lo. field_value (q_min_pages q) = Some lo \<and> to_int lo = None)
         \<or> (\<exists>hi. field_value (q_max_pages q) = Some hi \<and> to_int hi = None)"
  shows "fst (search_documents to_int q s) = Inl ValueError
           \<and> executed (snd (search_documents to_int q s)) = []"
proof -
  have "build_search_query to_int q = Inl ValueError"
    using assms
    by (auto simp: build_search_query_def Let_def split: option.splits sum.splits)
  then show ?thesis
    by (simp add: search_documents_def get_db_connection_def)
qed

theorem search_documents_non_numeric_witness:
  "field_value (q_min_pages q_bad) = Some ''abc'' \<and> decimal_int ''abc'' = None
   \<and> fst (search_documents decimal_int q_bad sample_db) = Inl ValueError
   \<and> executed (snd (search_documents decimal_int q_bad sample_db)) = []"
proof -
  have h: "field_value (q_min_pages q_bad) = Some ''abc'' \<and> decimal_int ''abc'' = None"
    by (simp add: q_bad_def decimal_int_def digit_of_def)
  then have "(\<exists>lo. field_value (q_min_pages q_bad) = Some lo \<and> decimal_int lo = None)
         \<or> (\<exists>hi. field_value (q_max_pages q_bad) = Some hi \<and> decimal_int hi = None)"
    by blast
  from search_documents_non_numeric [OF this, of sample_db] h show ?thesis
    by simp
qed

text \<open>
  C3. On a table whose \<open>added_date\<close> values are all NULL and that holds two documents,
  get\_recent\_documents(3) runs the statement ordered by \<open>added_date\<close> only: it returned
  rows, so the statement ordered by id is never run (\<open>get_recent_documents_primary_only\<close>
  has this for every table that is not empty), and the rows come in the order the store
  gives to equal keys (ids 1, 2), not by descending id.
\<close>

theorem get_recent_documents_null_dates:
  "map d_added_date (documents null_dates_db) = [None, None] \<and>
   executed (snd (get_recent_documents 3 null_dates_db)) = [RecentByAddedDate 3] \<and>
   closed (snd (get_recent_documents 3 null_dates_db)) \<and>
   map rr_id (fst (get_recent_documents 3 null_dates_db)) = [1, 2]"
  by (simp add: get_recent_documents_def get_db_connection_def log_stmt_def close_def
      recent_columns_def null_dates_db_def doc1_def doc2_def met1_def met2_def
      left_join_def joined_def metrics_of_def order_desc_def limit_rows_def in_int64_def)

text \<open>
  C4, as stated, fails twice. With no snapshot and an empty documents table, a metrics
  row that no document owns is still added up: total\_pages is 2, not 0. And with two
  metrics rows whose file sizes are \<open>2 ^ 62\<close> each, \<^verbatim>\<open>SUM(file_size)\<close> overflows:
  get\_corpus\_stats raises OperationalError, after three statements and with its
  connection open.
\<close>

theorem get_corpus_stats_unowned_metrics_and_overflow:
  "corpus_stats orphan_db = [] \<and> documents orphan_db = []
   \<and> fst (get_corpus_stats sample_loads ''2024-06-01T12:00:00'' orphan_db) =
       Inr (map_of
         [(''total_documents'', PyInt 0), (''total_pages'', PyInt 2),
          (''total_size_bytes'', PyInt 102400), (''courts'', PyDict []),
          (''years'', PyDict []), (''generated_date'', PyStr ''2024-06-01T12:00:00'')])
   \<and> corpus_stats overflow_db = []
   \<and> map m_file_size (document_metrics overflow_db) = [Some (2 ^ 62), Some (2 ^ 62)]
   \<and> get_corpus_stats sample_loads ''2024-06-01T12:00:00'' overflow_db =
       (Inl OperationalError,
        \<lparr>closed = False, executed = [LatestSnapshot, CountDocuments, SumPageCount]\<rparr>)"
proof -
  have c: "fst (get_corpus_stats sample_loads ''2024-06-01T12:00:00'' orphan_db) =
       Inr (map_of
         [(''total_documents'', PyInt 0), (''total_pages'', PyInt 2),
          (''total_size_bytes'', PyInt 102400), (''courts'', PyDict []),
          (''years'', PyDict []), (''generated_date'', PyStr ''2024-06-01T12:00:00'')])"
    by (simp add: get_corpus_stats_def latest_snapshot_def order_desc_def Let_def sql_sum_def
        non_null_def in_int64_def group_count_def truthy_groups_def orphan_db_def met1_def)
  have d: "get_corpus_stats sample_loads ''2024-06-01T12:00:00'' overflow_db =
       (Inl OperationalError,
        \<lparr>closed = False, executed = [LatestSnapshot, CountDocuments, SumPageCount]\<rparr>)"
    by (simp add: get_corpus_stats_def latest_snapshot_def order_desc_def Let_def sql_sum_def
        non_null_def in_int64_def get_db_connection_def log_stmt_def overflow_db_def met1_def
        met2_def)
  show ?thesis
    using c d by (simp add: orphan_db_def overflow_db_def)
qed

text \<open>
  C4, amended. With no snapshot row, and metrics columns whose values add up within 64
  bits, get\_corpus\_stats returns the computed statistics: the number of documents and
  the sums of the page counts and file sizes of all metrics rows, no field being None;
  when both the documents table and the metrics table are empty the totals are 0 and the
  two mappings are empty.
\<close>

theorem get_corpus_stats_no_snapshot:
  assumes "corpus_stats s = []"
    and "sum_fits (map m_page_count (document_metrics s))"
    and "sum_fits (map m_file_size (document_metrics s))"
  shows "\<exists>stats c. get_corpus_stats loads now s = (Inr stats, c)
           \<and> (\<forall>k. stats k \<noteq> Some PyNone)
           \<and> stats ''total_documents'' = Some (PyInt (int (length (documents s))))
           \<and> stats ''total_pages'' =
               Some (PyInt (sum_list (non_null (map m_page_count (document_metrics s)))))
           \<and> stats ''total_size_bytes'' =
               Some (PyInt (sum_list (non_null (map m_file_size (document_metrics s)))))
           \<and> (documents s = [] \<and> document_metrics s = [] \<longrightarrow>
                stats = map_of
                  [(''total_documents'', PyInt 0), (''total_pages'', PyInt 0),
                   (''total_size_bytes'', PyInt 0), (''courts'', PyDict []),
                   (''years'', PyDict []), (''generated_date'', PyStr now)])"
proof -
  have z: "or_zero (if non_null xs = [] then None else Some (sum_list (non_null xs)))
      = sum_list (non_null xs)" for xs :: "int option list"
    by simp
  have nn: "non_null ([] :: int option list) = []"
    by (simp add: non_null_def)
  show ?thesis
    using latest_snapshot_None [OF assms(1)]
    by (auto simp: get_corpus_stats_def Let_def sql_sum_fits [OF assms(2)]
        sql_sum_fits [OF assms(3)] z nn group_count_def truthy_groups_def
        simp del: or_zero.simps)
qed

theorem get_corpus_stats_no_snapshot_witness:
  "corpus_stats empty_db = []
   \<and> sum_fits (map m_page_count (document_metrics empty_db))
   \<and> sum_fits (map m_file_size (document_metrics empty_db))
   \<and> documents empty_db = [] \<and> document_metrics empty_db = []
   \<and> fst (get_corpus_stats sample_loads ''2024-06-01T12:00:00'' empty_db) =
       Inr (map_of
         [(''total_documents'', PyInt 0), (''total_pages'', PyInt 0),
          (''total_size_bytes'', PyInt 0), (''courts'', PyDict []),
          (''years'', PyDict []), (''generated_date'', PyStr ''2024-06-01T12:00:00'')])
   \<and> corpus_stats sample_db = []
   \<and> sum_fits (map m_page_count (document_metrics sample_db))
   \<and> sum_fits (map m_file_size (document_metrics sample_db))
   \<and> (projr (fst (get_corpus_stats sample_loads ''2024-06-01T12:00:00'' sample_db)))
        ''total_documents'' = Some (PyInt 3)
   \<and> (projr (fst (get_corpus_stats sample_loads ''2024-06-01T12:00:00'' sample_db)))
        ''total_pages'' = Some (PyInt 32)
   \<and> (projr (fst (get_corpus_stats sample_loads ''2024-06-01T12:00:00'' sample_db)))
        ''total_size_bytes'' = Some (PyInt 1638400)"
proof -
  have h: "corpus_stats empty_db = []"
    by (simp add: empty_db_def)
  have p: "sum_fits (map m_page_count (document_metrics empty_db))"
    by (simp add: sum_fits_def non_null_def empty_db_def)
  have f: "sum_fits (map m_file_size (document_metrics empty_db))"
    by (simp add: sum_fits_def non_null_def empty_db_def)
  have e: "documents empty_db = [] \<and> document_metrics empty_db = []"
    by (simp add: empty_db_def)
  have h': "corpus_stats sample_db = []"
    by (simp add: sample_db_def)
  have p': "sum_fits (map m_page_count (document_metrics sample_db))"
    by (simp add: sum_fits_def non_null_def sample_db_def met1_def met2_def in_int64_def
        upt_rec [of _ "Suc _"] upt_rec [of _ "numeral _"])
  have f': "sum_fits (map m_file_size (document_metrics sample_db))"
    by (simp add: sum_fits_def non_null_def sample_db_def met1_def met2_def in_int64_def
        upt_rec [of _ "Suc _"] upt_rec [of _ "numeral _"])
  have n: "int (length (documents sample_db)) = 3
      \<and> sum_list (non_null (map m_page_count (document_metrics sample_db))) = 32
      \<and> sum_list (non_null (map m_file_size (document_metrics sample_db))) = 1638400"
    by (simp add: non_null_def sample_db_def met1_def met2_def)
  from get_corpus_stats_no_snapshot [OF h p f, of sample_loads "''2024-06-01T12:00:00''"]
    get_corpus_stats_no_snapshot [OF h' p' f', of sample_loads "''2024-06-01T12:00:00''"]
    h p f e h' p' f' n
  show ?thesis by auto
qed

text \<open>
  C5, as stated, fails on two texts that do not deserialize. The empty text:
  \<^verbatim>\<open>json.loads('')\<close> raises JSONDecodeError, but the guard \<^verbatim>\<open>if stats.get('courts')\<close>
  never tries it, and courts comes back as the empty string, not as an empty mapping,
  beside a years mapping that is decoded. And a text of 100000 opening brackets:
  \<^verbatim>\<open>json.loads\<close> raises RecursionError, which line 69 does not catch, and the whole
  read fails, with the connection open.
\<close>

theorem get_corpus_stats_courts_not_degraded:
  \<open>latest_snapshot empty_courts_db = Some snap_empty_courts
   \<and> s_courts snap_empty_courts = Some [] \<and> sample_loads [] = Inl JSONDecodeError
   \<and> s_years snap_empty_courts = Some ''{"1991": 1}''
   \<and> sample_loads ''{"1991": 1}'' = Inr (PyDict [(''1991'', PyInt 1)])
   \<and> (projr (fst (get_corpus_stats sample_loads ''2024-06-01T12:00:00'' empty_courts_db)))
        ''courts'' = Some (PyStr [])
   \<and> (projr (fst (get_corpus_stats sample_loads ''2024-06-01T12:00:00'' empty_courts_db)))
        ''years'' = Some (PyDict [(''1991'', PyInt 1)])
   \<and> latest_snapshot deep_db = Some snap_deep
   \<and> s_courts snap_deep = Some deep_brackets \<and> length deep_brackets = 100000
   \<and> sample_loads deep_brackets = Inl RecursionError
   \<and> s_years snap_deep = Some ''{"1991": 1}''
   \<and> get_corpus_stats sample_loads ''2024-06-01T12:00:00'' deep_db =
       (Inl RecursionError, \<lparr>closed = False, executed = [LatestSnapshot]\<rparr>)\<close>
proof -
  have a: "latest_snapshot empty_courts_db = Some snap_empty_courts"
    by (simp add: latest_snapshot_def empty_courts_db_def order_desc_def snap_old_def
        snap_bad_def snap_empty_courts_def)
  have l: \<open>sample_loads [] = Inl JSONDecodeError
      \<and> sample_loads ''{"1991": 1}'' = Inr (PyDict [(''1991'', PyInt 1)])\<close>
    by (simp add: sample_loads_def deep_brackets_neq deep_brackets_not_Nil [symmetric])
  have b: \<open>s_courts snap_empty_courts = Some []
      \<and> s_years snap_empty_courts = Some ''{"1991": 1}''\<close>
    by (simp add: snap_empty_courts_def)
  have c: \<open>(projr (fst (get_corpus_stats sample_loads ''2024-06-01T12:00:00'' empty_courts_db)))
        ''courts'' = Some (PyStr [])
   \<and> (projr (fst (get_corpus_stats sample_loads ''2024-06-01T12:00:00'' empty_courts_db)))
        ''years'' = Some (PyDict [(''1991'', PyInt 1)])\<close>
    unfolding get_corpus_stats_snapshot [OF a]
    by (simp add: parse_json_field_def snapshot_dict_def b l)
  have d: "latest_snapshot deep_db = Some snap_deep"
    by (simp add: latest_snapshot_def deep_db_def order_desc_def snap_old_def
        snap_bad_def snap_deep_def)
  have e: \<open>s_courts snap_deep = Some deep_brackets \<and> s_years snap_deep = Some ''{"1991": 1}''\<close>
    by (simp add: snap_deep_def)
  have f: "field_value (s_courts snap_deep) = Some deep_brackets"
    by (simp add: e field_value_Some deep_brackets_not_Nil)
  have g: "sample_loads deep_brackets = Inl RecursionError"
    by (simp add: sample_loads_def)
  have len: "length deep_brackets = 100000"
    by (simp add: deep_brackets_def)
  have r: "get_corpus_stats sample_loads ''2024-06-01T12:00:00'' deep_db =
       (Inl RecursionError, \<lparr>closed = False, executed = [LatestSnapshot]\<rparr>)"
    using get_corpus_stats_uncaught [where loads = sample_loads and e = RecursionError, OF d f g]
    by simp
  show ?thesis
    using a l b c d e g len r by simp
qed

text \<open>
  C5, amended. When the latest snapshot holds a courts text (present, not empty) on which
  \<^verbatim>\<open>json.loads\<close> raises JSONDecodeError and a years text (present, not empty) that
  deserializes, get\_corpus\_stats returns the empty mapping for courts and the
  deserialized value for years, and the other columns as stored.
\<close>

theorem get_corpus_stats_malformed_courts:
  assumes "latest_snapshot s = Some r"
    and "field_value (s_courts r) = Some t" and "loads t = Inl JSONDecodeError"
    and "field_value (s_years r) = Some u" and "loads u = Inr y"
  shows "\<exists>stats c. get_corpus_stats loads now s = (Inr stats, c)
           \<and> stats ''courts'' = Some (PyDict [])
           \<and> stats ''years'' = Some y
           \<and> stats ''total_documents'' = Some (py_integer (s_total_documents r))
           \<and> stats ''total_pages'' = Some (py_integer (s_total_pages r))
           \<and> stats ''total_size_bytes'' = Some (py_integer (s_total_size_bytes r))"
  using assms(2-5)
  by (simp add: get_corpus_stats_snapshot [OF assms(1)] parse_json_field_def snapshot_dict_def)

theorem get_corpus_stats_malformed_courts_witness:
  \<open>latest_snapshot malformed_db = Some snap_bad
   \<and> field_value (s_courts snap_bad) = Some ''{"STJ": 2,''
   \<and> sample_loads ''{"STJ": 2,'' = Inl JSONDecodeError
   \<and> field_value (s_years snap_bad) = Some ''{"1991": 1}''
   \<and> sample_loads ''{"1991": 1}'' = Inr (PyDict [(''1991'', PyInt 1)])
   \<and> (projr (fst (get_corpus_stats sample_loads ''2024-06-01T12:00:00'' malformed_db)))
        ''courts'' = Some (PyDict [])
   \<and> (projr (fst (get_corpus_stats sample_loads ''2024-06-01T12:00:00'' malformed_db)))
        ''years'' = Some (PyDict [(''1991'', PyInt 1)])\<close>
proof -
  have a: "latest_snapshot malformed_db = Some snap_bad"
    by (simp add: latest_snapshot_def malformed_db_def order_desc_def snap_old_def snap_bad_def)
  have b: \<open>field_value (s_courts snap_bad) = Some ''{"STJ": 2,''\<close>
    by (simp add: snap_bad_def)
  have c: \<open>sample_loads ''{"STJ": 2,'' = Inl JSONDecodeError\<close>
    by (simp add: sample_loads_def deep_brackets_neq)
  have d: \<open>field_value (s_years snap_bad) = Some ''{"1991": 1}''\<close>
    by (simp add: snap_bad_def)
  have e: \<open>sample_loads ''{"1991": 1}'' = Inr (PyDict [(''1991'', PyInt 1)])\<close>
    by (simp add: sample_loads_def deep_brackets_neq)
  from get_corpus_stats_malformed_courts [OF a b c d e, of "''2024-06-01T12:00:00''"] a b c d e
  show ?thesis by auto
qed

text \<open>
  C6. With every field of the filter absent or empty, search\_documents returns every
  document: with each of its metrics rows where it has some, once with null metric
  fields where it has none, and nothing else (the number of rows is that of the left
  join). The rows are in descending order of \<open>added_date\<close>, the nulls last.
\<close>

theorem search_documents_empty_filter:
  assumes "supplied q = (False, False, False, False)"
  shows "\<exists>rows c. search_documents to_int q s = (Inr rows, c)
           \<and> (\<forall>d\<in>set (documents s). \<forall>m\<in>set (document_metrics s).
                 m_document_id m = Some (d_id d) \<longrightarrow> search_columns (d, Some m) \<in> set rows)
           \<and> (\<forall>d\<in>set (documents s).
                 (\<forall>m\<in>set (document_metrics s). m_document_id m \<noteq> Some (d_id d)) \<longrightarrow>
                 search_columns (d, None) \<in> set rows)
           \<and> (\<forall>r\<in>set rows. \<exists>d\<in>set (documents s).
                 ((\<forall>m\<in>set (document_metrics s). m_document_id m \<noteq> Some (d_id d))
                    \<and> r = search_columns (d, None))
                 \<or> (\<exists>m\<in>set (document_metrics s).
                       m_document_id m = Some (d_id d) \<and> r = search_columns (d, Some m)))
           \<and> length rows =
               sum_list (map (\<lambda>d. max 1 (length (filter (\<lambda>m. m_document_id m = Some (d_id d))
                                                    (document_metrics s)))) (documents s))
           \<and> sorted_wrt (\<lambda>a b. r_added_date b \<le> r_added_date a) rows
           \<and> (\<forall>i j. i < j \<and> j < length rows \<and> r_added_date (rows ! i) = None \<longrightarrow>
                 r_added_date (rows ! j) = None)"
proof -
  have wf: "well_formed to_int q"
    using assms by (simp add: supplied_def well_formed_def numeric_bound_def)
  have fit: "bounds_fit to_int q"
    using assms by (simp add: supplied_def bounds_fit_def bound_fits_def)
  have sat: "satisfies to_int q r" for r
    using assms by (simp add: supplied_def satisfies_def)
  define rows where
    "rows = map search_columns (order_desc (\<lambda>row. d_added_date (fst row)) (left_join s))"
  have run: "search_documents to_int q s =
      (Inr rows, \<lparr>closed = True, executed = [Search (sql_for (supplied q)) (params_for to_int q)]\<rparr>)"
    by (simp add: search_documents_well_formed [OF wf fit] sat rows_def)
  have set_rows: "set rows = search_columns ` set (left_join s)"
    by (simp add: rows_def set_order_desc)
  have with_metrics: "search_columns (d, Some m) \<in> set rows"
    if "d \<in> set (documents s)" "m \<in> set (document_metrics s)"
      "m_document_id m = Some (d_id d)" for d m
  proof -
    have "(d, Some m) \<in> set (left_join s)"
      using that by (simp add: in_left_join)
    then show ?thesis unfolding set_rows by blast
  qed
  have without_metrics: "search_columns (d, None) \<in> set rows"
    if "d \<in> set (documents s)"
      "\<forall>m\<in>set (document_metrics s). m_document_id m \<noteq> Some (d_id d)" for d
  proof -
    have "(d, None) \<in> set (left_join s)"
      using that by (simp add: in_left_join)
    then show ?thesis unfolding set_rows by blast
  qed
  have only: "\<exists>d\<in>set (documents s).
      ((\<forall>m\<in>set (document_metrics s). m_document_id m \<noteq> Some (d_id d))
         \<and> r = search_columns (d, None))
      \<or> (\<exists>m\<in>set (document_metrics s).
            m_document_id m = Some (d_id d) \<and> r = search_columns (d, Some m))"
    if "r \<in> set rows" for r
  proof -
    from that obtain d mo where row: "(d, mo) \<in> set (left_join s)" "r = search_columns (d, mo)"
      unfolding set_rows by auto
    show ?thesis
    proof (cases mo)
      case None
      then show ?thesis using row by (auto simp: in_left_join)
    next
      case (Some m)
      then show ?thesis using row by (auto simp: in_left_join)
    qed
  qed
  have len: "length rows =
      sum_list (map (\<lambda>d. max 1 (length (filter (\<lambda>m. m_document_id m = Some (d_id d))
                                           (document_metrics s)))) (documents s))"
    by (simp add: rows_def order_desc_def length_left_join)
  have srt: "sorted_wrt (\<lambda>a b. r_added_date b \<le> r_added_date a) rows"
    using sorted_order_desc [of "\<lambda>row. d_added_date (fst row)" "left_join s"]
    by (simp add: rows_def sorted_wrt_map search_columns_def)
  have nulls: "r_added_date (rows ! j) = None"
    if "i < j" "j < length rows" "r_added_date (rows ! i) = None" for i j
  proof -
    have "r_added_date (rows ! j) \<le> r_added_date (rows ! i)"
      using srt that(1,2) by (simp add: sorted_wrt_iff_nth_less)
    then show ?thesis using that(3) by (cases "r_added_date (rows ! j)") simp_all
  qed
  show ?thesis
    using run with_metrics without_metrics only len srt nulls by blast
qed

theorem search_documents_empty_filter_witness:
  "supplied q_none = (False, False, False, False)
   \<and> fst (search_documents decimal_int q_none sample_db) =
       Inr [\<lparr>r_ecli_id = ''ECLI_PT_STJ_2000_000003'', r_court = Some ''STJ'',
             r_year = Some ''2000'', r_added_date = Some ''2024-06-01T10:00:00'',
             r_page_count = None, r_file_size = None\<rparr>,
            \<lparr>r_ecli_id = ''ECLI_PT_TRL_1998_000002'', r_court = Some ''TRL'',
             r_year = Some ''1998'', r_added_date = Some ''2024-05-01T10:00:00'',
             r_page_count = Some 30, r_file_size = Some 1536000\<rparr>,
            \<lparr>r_ecli_id = ''ECLI_PT_STJ_1991_000001'', r_court = Some ''STJ'',
             r_year = Some ''1991'', r_added_date = None, r_page_count = Some 2,
             r_file_size = Some 102400\<rparr>]"
proof -
  have h: "supplied q_none = (False, False, False, False)"
    by (simp add: supplied_def q_none_def)
  have wf: "well_formed decimal_int q_none"
    by (simp add: well_formed_def numeric_bound_def q_none_def)
  have fit: "bounds_fit decimal_int q_none"
    by (simp add: bounds_fit_def bound_fits_def q_none_def)
  have e: "fst (search_documents decimal_int q_none sample_db) =
       Inr [\<lparr>r_ecli_id = ''ECLI_PT_STJ_2000_000003'', r_court = Some ''STJ'',
             r_year = Some ''2000'', r_added_date = Some ''2024-06-01T10:00:00'',
             r_page_count = None, r_file_size = None\<rparr>,
            \<lparr>r_ecli_id = ''ECLI_PT_TRL_1998_000002'', r_court = Some ''TRL'',
             r_year = Some ''1998'', r_added_date = Some ''2024-05-01T10:00:00'',
             r_page_count = Some 30, r_file_size = Some 1536000\<rparr>,
            \<lparr>r_ecli_id = ''ECLI_PT_STJ_1991_000001'', r_court = Some ''STJ'',
             r_year = Some ''1991'', r_added_date = None, r_page_count = Some 2,
             r_file_size = Some 102400\<rparr>]"
    by (subst search_documents_well_formed [OF wf fit])
       (simp add: satisfies_def search_columns_def q_none_def sample_simps)
  from search_documents_empty_filter [OF h, of decimal_int sample_db] h e show ?thesis
    by blast
qed

text \<open>
  C7. The statement text is a function of which fields are supplied, not of their
  values: two filters that supply the same fields give the same text, and the values
  appear only in the parameter list.
\<close>

theorem search_sql_independent_of_values:
  assumes "build_search_query to_int q = Inr (sql, ps)"
    and "build_search_query to_int q' = Inr (sql', ps')"
    and "supplied q = supplied q'"
  shows "sql = sql' \<and> sql = sql_for (supplied q)
           \<and> ps = params_for to_int q \<and> ps' = params_for to_int q'"
  using assms build_Inr by metis

theorem search_sql_independent_of_values_witness:
  "build_search_query decimal_int q_stj =
     Inr (sql_for (True, False, True, False), [Text ''STJ'', Integer 2])
   \<and> build_search_query decimal_int q_trl =
     Inr (sql_for (True, False, True, False), [Text ''TRL'', Integer 30])
   \<and> supplied q_stj = supplied q_trl"
proof -
  have a: "build_search_query decimal_int q_stj =
      Inr (sql_for (True, False, True, False), [Text ''STJ'', Integer 2])"
    by (simp add: build_search_query_def sql_for_def q_stj_def decimal_int_def digit_of_def)
  have b: "build_search_query decimal_int q_trl =
      Inr (sql_for (True, False, True, False), [Text ''TRL'', Integer 30])"
    by (simp add: build_search_query_def sql_for_def q_trl_def decimal_int_def digit_of_def)
  have c: "supplied q_stj = supplied q_trl"
    by (simp add: supplied_def q_stj_def q_trl_def)
  show ?thesis
    using a b c search_sql_independent_of_values [OF a b c] by simp
qed

text \<open>
  C8, as stated, fails for a blob key named like the raw column. The metadata of the
  second sample document deserializes to the mapping with the one key
  \<open>pdf_metadata\<close>; the lookup answers 200 and its result has no such key, because
  \<^verbatim>\<open>del doc['pdf_metadata']\<close> runs after \<^verbatim>\<open>doc.update\<close>.
\<close>

theorem get_document_blob_key_dropped:
  \<open>mcol m_pdf_metadata (Some met2) = Some ''{"pdf_metadata": "x"}''
   \<and> sample_loads ''{"pdf_metadata": "x"}'' = Inr (PyDict [(''pdf_metadata'', PyStr ''x'')])
   \<and> snd (fst (get_document sample_loads keep_dict ''ECLI_PT_TRL_1998_000002'' sample_db)) = 200
   \<and> fst (fst (get_document sample_loads keep_dict ''ECLI_PT_TRL_1998_000002'' sample_db))
        ''pdf_metadata'' = None\<close>
  by (simp add: get_document_def dict_update_def sample_loads_def deep_brackets_neq
      sample_db_def doc1_def
      doc2_def doc3_def met1_def met2_def left_join_def joined_def metrics_of_def)

text \<open>
  C8, amended. An ecli id that no document has gives the not-found result with status
  404. For the document with the given ecli id, whose (first) metrics row holds a
  non-empty blob that deserializes to a mapping, the result has status 200, carries
  every blob key other than \<open>pdf_metadata\<close> at top level with the blob's value, and has
  no \<open>pdf_metadata\<close> key.
\<close>

theorem get_document_detail:
  "((\<forall>d\<in>set (documents s). d_ecli_id d \<noteq> ecli) \<longrightarrow>
      fst (get_document loads upd ecli s) = (not_found, 404))
   \<and> (d \<in> set (documents s)
        \<and> (\<forall>d'\<in>set (documents s). d_ecli_id d' = d_ecli_id d \<longrightarrow> d' = d)
        \<and> metrics_of (document_metrics s) d = m # rest
        \<and> field_value (m_pdf_metadata m) = Some t
        \<and> loads t = Inr (PyDict kvs) \<and> distinct (map fst kvs) \<longrightarrow>
      (\<exists>doc. fst (get_document loads upd (d_ecli_id d) s) = (doc, 200)
         \<and> doc ''pdf_metadata'' = None
         \<and> (\<forall>(k, v)\<in>set kvs. k \<noteq> ''pdf_metadata'' \<longrightarrow> doc k = Some v)))"
proof (intro conjI impI)
  assume "\<forall>d\<in>set (documents s). d_ecli_id d \<noteq> ecli"
  then show "fst (get_document loads upd ecli s) = (not_found, 404)"
    by (simp add: get_document_not_found)
next
  assume a: "d \<in> set (documents s)
        \<and> (\<forall>d'\<in>set (documents s). d_ecli_id d' = d_ecli_id d \<longrightarrow> d' = d)
        \<and> metrics_of (document_metrics s) d = m # rest
        \<and> field_value (m_pdf_metadata m) = Some t
        \<and> loads t = Inr (PyDict kvs) \<and> distinct (map fst kvs)"
  then have run: "fst (get_document loads upd (d_ecli_id d) s) =
      ((detail_dict (d, Some m) ++ map_of (rev kvs))(''pdf_metadata'' := None), 200)"
    by (intro get_document_mapping) blast+
  have "distinct (map fst (rev kvs))"
    using a by (simp add: rev_map [symmetric])
  then have "map_of (rev kvs) k = Some v" if "(k, v) \<in> set kvs" for k v
    using that by simp
  then have "\<forall>(k, v)\<in>set kvs. k \<noteq> ''pdf_metadata'' \<longrightarrow>
      ((detail_dict (d, Some m) ++ map_of (rev kvs))(''pdf_metadata'' := None)) k = Some v"
    by auto
  then show "\<exists>doc. fst (get_document loads upd (d_ecli_id d) s) = (doc, 200)
         \<and> doc ''pdf_metadata'' = None
         \<and> (\<forall>(k, v)\<in>set kvs. k \<noteq> ''pdf_metadata'' \<longrightarrow> doc k = Some v)"
    using run by simp
qed

theorem get_document_detail_witness:
  \<open>fst (get_document sample_loads keep_dict ''ECLI_PT_XXX_0000_000000'' sample_db)
     = (not_found, 404)
   \<and> metrics_of (document_metrics sample_db) doc1 = [met1]
   \<and> field_value (m_pdf_metadata met1) = Some ''{"judge": "X"}''
   \<and> sample_loads ''{"judge": "X"}'' = Inr (PyDict [(''judge'', PyStr ''X'')])
   \<and> snd (fst (get_document sample_loads keep_dict ''ECLI_PT_STJ_1991_000001'' sample_db)) = 200
   \<and> fst (fst (get_document sample_loads keep_dict ''ECLI_PT_STJ_1991_000001'' sample_db))
        ''judge'' = Some (PyStr ''X'')
   \<and> fst (fst (get_document sample_loads keep_dict ''ECLI_PT_STJ_1991_000001'' sample_db))
        ''pdf_metadata'' = None\<close>
proof -
  have none: "\<forall>d\<in>set (documents sample_db). d_ecli_id d \<noteq> ''ECLI_PT_XXX_0000_000000''"
    by (simp add: sample_db_def doc1_def doc2_def doc3_def)
  have a: "doc1 \<in> set (documents sample_db)"
    by (simp add: sample_db_def)
  have b: "\<forall>d'\<in>set (documents sample_db). d_ecli_id d' = d_ecli_id doc1 \<longrightarrow> d' = doc1"
    by (simp add: sample_db_def doc1_def doc2_def doc3_def)
  have c: "metrics_of (document_metrics sample_db) doc1 = met1 # []"
    by (simp add: sample_db_def metrics_of_def doc1_def met1_def met2_def)
  have d: \<open>field_value (m_pdf_metadata met1) = Some ''{"judge": "X"}''\<close>
    by (simp add: met1_def)
  have e: \<open>sample_loads ''{"judge": "X"}'' = Inr (PyDict [(''judge'', PyStr ''X'')])\<close>
    by (simp add: sample_loads_def deep_brackets_neq)
  have f: "distinct (map fst [(''judge'', PyStr ''X'')])"
    by simp
  have id: "d_ecli_id doc1 = ''ECLI_PT_STJ_1991_000001''"
    by (simp add: doc1_def)
  have nf: "fst (get_document sample_loads keep_dict ''ECLI_PT_XXX_0000_000000'' sample_db)
      = (not_found, 404)"
    using get_document_detail [of sample_db "''ECLI_PT_XXX_0000_000000''" sample_loads keep_dict]
      none by blast
  have "\<exists>doc. fst (get_document sample_loads keep_dict (d_ecli_id doc1) sample_db) = (doc, 200)
         \<and> doc ''pdf_metadata'' = None
         \<and> (\<forall>(k, v)\<in>set [(''judge'', PyStr ''X'')]. k \<noteq> ''pdf_metadata'' \<longrightarrow> doc k = Some v)"
    using get_document_detail [of sample_db _ sample_loads keep_dict doc1 met1 "[]" _
        "[(''judge'', PyStr ''X'')]"] a b c d e f by blast
  then show ?thesis
    using nf c d e unfolding id by auto
qed

text \<open>
  C9. A filter whose \<open>min_pages\<close> is not a number makes search\_documents raise with its
  connection still open: \<^verbatim>\<open>conn.close()\<close> is not on that path. get\_corpus\_stats
  does the same when \<^verbatim>\<open>json.loads\<close> or a \<^verbatim>\<open>SUM\<close> statement raises;
  get\_recent\_documents and the document lookup close theirs on every path (the lemmas
  above).
\<close>

theorem search_documents_leaves_connection_open:
  "search_documents decimal_int q_bad s = (Inl ValueError, \<lparr>closed = False, executed = []\<rparr>)"
  by (simp add: search_documents_def build_search_query_def get_db_connection_def q_bad_def
      decimal_int_def digit_of_def)

text \<open>
  C10, as stated, fails when the other field stops the read. The latest snapshot's courts
  text is empty and its years text is 100000 opening brackets: \<^verbatim>\<open>json.loads\<close> raises
  RecursionError on the years text, line 75 does not catch it, and get\_corpus\_stats
  returns no field at all.
\<close>

theorem get_corpus_stats_blank_courts_not_returned:
  "latest_snapshot deep_years_db = Some snap_deep_years
   \<and> s_courts snap_deep_years = Some []
   \<and> s_years snap_deep_years = Some deep_brackets \<and> length deep_brackets = 100000
   \<and> sample_loads deep_brackets = Inl RecursionError
   \<and> get_corpus_stats sample_loads ''2024-06-01T12:00:00'' deep_years_db =
       (Inl RecursionError, \<lparr>closed = False, executed = [LatestSnapshot]\<rparr>)"
proof -
  have a: "latest_snapshot deep_years_db = Some snap_deep_years"
    by (simp add: latest_snapshot_def deep_years_db_def order_desc_def snap_old_def
        snap_bad_def snap_deep_years_def)
  have b: "s_courts snap_deep_years = Some [] \<and> s_years snap_deep_years = Some deep_brackets"
    by (simp add: snap_deep_years_def)
  have g: "sample_loads deep_brackets = Inl RecursionError"
    by (simp add: sample_loads_def)
  have len: "length deep_brackets = 100000"
    by (simp add: deep_brackets_def)
  have r: "get_corpus_stats sample_loads ''2024-06-01T12:00:00'' deep_years_db =
       (Inl RecursionError, \<lparr>closed = False, executed = [LatestSnapshot]\<rparr>)"
    unfolding get_corpus_stats_snapshot [OF a]
    by (simp add: parse_json_field_def b g deep_brackets_not_Nil)
  show ?thesis
    using a b g len r by simp
qed

text \<open>
  C10, amended. When the latest snapshot's courts (or years) column is NULL or the empty
  string, and \<^verbatim>\<open>json.loads\<close> returns or raises JSONDecodeError on each of the two
  columns that is not, get\_corpus\_stats returns that column as stored, None or the
  empty string, and not an empty mapping.
\<close>

theorem get_corpus_stats_blank_field:
  assumes "latest_snapshot s = Some r"
    and "decodes_or_caught loads (s_courts r)" and "decodes_or_caught loads (s_years r)"
  shows "\<exists>stats c. get_corpus_stats loads now s = (Inr stats, c)
           \<and> (s_courts r = None \<or> s_courts r = Some [] \<longrightarrow>
                stats ''courts'' = Some (py_text (s_courts r)))
           \<and> (s_years r = None \<or> s_years r = Some [] \<longrightarrow>
                stats ''years'' = Some (py_text (s_years r)))"
  by (auto simp: get_corpus_stats_snapshot [OF assms(1)] parse_json_field_caught [OF assms(2)]
      parse_json_field_caught [OF assms(3)] snapshot_dict_def field_value_Some
      split: option.splits sum.splits)

theorem get_corpus_stats_blank_field_witness:
  \<open>latest_snapshot blank_db = Some snap_blank
   \<and> decodes_or_caught sample_loads (s_courts snap_blank)
   \<and> decodes_or_caught sample_loads (s_years snap_blank)
   \<and> s_courts snap_blank = Some [] \<and> s_years snap_blank = None
   \<and> (projr (fst (get_corpus_stats sample_loads ''2024-06-01T12:00:00'' blank_db)))
        ''courts'' = Some (PyStr [])
   \<and> (projr (fst (get_corpus_stats sample_loads ''2024-06-01T12:00:00'' blank_db)))
        ''years'' = Some PyNone
   \<and> latest_snapshot empty_courts_db = Some snap_empty_courts
   \<and> decodes_or_caught sample_loads (s_courts snap_empty_courts)
   \<and> decodes_or_caught sample_loads (s_years snap_empty_courts)
   \<and> s_courts snap_empty_courts = Some []
   \<and> (projr (fst (get_corpus_stats sample_loads ''2024-06-01T12:00:00'' empty_courts_db)))
        ''courts'' = Some (PyStr [])\<close>
proof -
  have a: "latest_snapshot blank_db = Some snap_blank"
    by (simp add: latest_snapshot_def blank_db_def order_desc_def snap_old_def snap_bad_def
        snap_blank_def)
  have b: "s_courts snap_blank = Some [] \<and> s_years snap_blank = None"
    by (simp add: snap_blank_def)
  have c: "decodes_or_caught sample_loads (s_courts snap_blank)"
    by (simp add: decodes_or_caught_def snap_blank_def)
  have d: "decodes_or_caught sample_loads (s_years snap_blank)"
    by (simp add: decodes_or_caught_def snap_blank_def)
  have a': "latest_snapshot empty_courts_db = Some snap_empty_courts"
    by (simp add: latest_snapshot_def empty_courts_db_def order_desc_def snap_old_def
        snap_bad_def snap_empty_courts_def)
  have b': "s_courts snap_empty_courts = Some []"
    by (simp add: snap_empty_courts_def)
  have c': "decodes_or_caught sample_loads (s_courts snap_empty_courts)"
    by (simp add: decodes_or_caught_def snap_empty_courts_def)
  have d': "decodes_or_caught sample_loads (s_years snap_empty_courts)"
    by (simp add: decodes_or_caught_def snap_empty_courts_def sample_loads_def
        deep_brackets_neq)
  from get_corpus_stats_blank_field [OF a c d, of "''2024-06-01T12:00:00''"]
    get_corpus_stats_blank_field [OF a' c' d', of "''2024-06-01T12:00:00''"] a b c d a' b' c' d'
  show ?thesis by auto
qed

end
